theory Spec2Isabelle
  imports Complex_Main
begin

section \<open>Python strings\<close>

text \<open>
  A Python \<open>str\<close> is modelled as a \<open>string\<close> whose characters are the code points
  below 256. The string methods below are the ones the sources call, restricted to that
  range: \<open>str.isspace\<close>, \<open>str.isdigit\<close>, \<open>str.lower\<close>, \<open>str.strip\<close>,
  \<open>str.rstrip(chars)\<close>, \<open>str.split()\<close>, \<open>str.split(None, 1)\<close>, \<open>str.join\<close>,
  \<open>x in s\<close> and \<open>str.find\<close>.
\<close>

definition py_isspace :: "char \<Rightarrow> bool" where
  "py_isspace c = (c \<in> set [CHR 0x09, CHR 0x0A, CHR 0x0B, CHR 0x0C, CHR 0x0D,
     CHR 0x1C, CHR 0x1D, CHR 0x1E, CHR 0x1F, CHR 0x20, CHR 0x85, CHR 0xA0])"

definition re_digit :: "char \<Rightarrow> bool" where
  "re_digit c = (c \<in> set ''0123456789'')"

definition py_isdigit_char :: "char \<Rightarrow> bool" where
  "py_isdigit_char c = (re_digit c \<or> c \<in> set [CHR 0xB2, CHR 0xB3, CHR 0xB9])"

definition py_isdigit :: "string \<Rightarrow> bool" where
  "py_isdigit s = (s \<noteq> [] \<and> list_all py_isdigit_char s)"

definition upper_chars :: "char list" where
  "upper_chars = ''ABCDEFGHIJKLMNOPQRSTUVWXYZ'' @
     [CHR 0xC0, CHR 0xC1, CHR 0xC2, CHR 0xC3, CHR 0xC4, CHR 0xC5, CHR 0xC6, CHR 0xC7,
      CHR 0xC8, CHR 0xC9, CHR 0xCA, CHR 0xCB, CHR 0xCC, CHR 0xCD, CHR 0xCE, CHR 0xCF,
      CHR 0xD0, CHR 0xD1, CHR 0xD2, CHR 0xD3, CHR 0xD4, CHR 0xD5, CHR 0xD6, CHR 0xD8,
      CHR 0xD9, CHR 0xDA, CHR 0xDB, CHR 0xDC, CHR 0xDD, CHR 0xDE]"

definition lower_chars :: "char list" where
  "lower_chars = ''abcdefghijklmnopqrstuvwxyz'' @
     [CHR 0xE0, CHR 0xE1, CHR 0xE2, CHR 0xE3, CHR 0xE4, CHR 0xE5, CHR 0xE6, CHR 0xE7,
      CHR 0xE8, CHR 0xE9, CHR 0xEA, CHR 0xEB, CHR 0xEC, CHR 0xED, CHR 0xEE, CHR 0xEF,
      CHR 0xF0, CHR 0xF1, CHR 0xF2, CHR 0xF3, CHR 0xF4, CHR 0xF5, CHR 0xF6, CHR 0xF8,
      CHR 0xF9, CHR 0xFA, CHR 0xFB, CHR 0xFC, CHR 0xFD, CHR 0xFE]"

definition py_lower_char :: "char \<Rightarrow> char" where
  "py_lower_char c = (case map_of (zip upper_chars lower_chars) c of Some d \<Rightarrow> d | None \<Rightarrow> c)"

definition py_lower :: "string \<Rightarrow> string" where
  "py_lower s = map py_lower_char s"

definition py_lstrip :: "string \<Rightarrow> string" where
  "py_lstrip s = dropWhile py_isspace s"

definition py_rstrip :: "string \<Rightarrow> string" where
  "py_rstrip s = rev (dropWhile py_isspace (rev s))"

definition py_strip :: "string \<Rightarrow> string" where
  "py_strip s = py_rstrip (py_lstrip s)"

definition py_rstrip_chars :: "string \<Rightarrow> string \<Rightarrow> string" where
  "py_rstrip_chars chars s = rev (dropWhile (\<lambda>c. c \<in> set chars) (rev s))"

text \<open>\<open>s.split()\<close>: the maximal runs of non-whitespace characters, in order.\<close>

fun split_ws :: "string \<Rightarrow> string \<Rightarrow> string list" where
  "split_ws cur [] = (if cur = [] then [] else [cur])"
| "split_ws cur (c # cs) =
     (if py_isspace c then (if cur = [] then split_ws [] cs else cur # split_ws [] cs)
      else split_ws (cur @ [c]) cs)"

definition py_split :: "string \<Rightarrow> string list" where
  "py_split s = split_ws [] s"

text \<open>\<open>s.split(None, 1)\<close>: the first token, and the rest after the whitespace that ends it.\<close>

definition py_split1 :: "string \<Rightarrow> string list" where
  "py_split1 s =
     (let s1 = py_lstrip s;
          tok = takeWhile (\<lambda>c. \<not> py_isspace c) s1;
          rest = py_lstrip (dropWhile (\<lambda>c. \<not> py_isspace c) s1)
      in if tok = [] then [] else if rest = [] then [tok] else [tok, rest])"

fun py_join :: "string \<Rightarrow> string list \<Rightarrow> string" where
  "py_join sep [] = []"
| "py_join sep [x] = x"
| "py_join sep (x # y # ys) = x @ sep @ py_join sep (y # ys)"

text \<open>\<open>s.startswith(p)\<close>, and \<open>sub in s\<close>: \<open>sub\<close> occurs in \<open>s\<close> as a contiguous substring.\<close>

fun startswith :: "string \<Rightarrow> string \<Rightarrow> bool" where
  "startswith s [] = True"
| "startswith [] (p # ps) = False"
| "startswith (c # cs) (p # ps) = (c = p \<and> startswith cs ps)"

fun py_in :: "string \<Rightarrow> string \<Rightarrow> bool" where
  "py_in sub [] = (sub = [])"
| "py_in sub (c # cs) = (startswith (c # cs) sub \<or> py_in sub cs)"

section \<open>Street-address decomposition (\<open>golden_source.py\<close>, \<open>get_pinellas_matches\<close>)\<close>

definition street_types :: "string list" where
  "street_types =
     [''street'', ''st'', ''avenue'', ''ave'', ''road'', ''rd'', ''drive'', ''dr'',
      ''lane'', ''ln'', ''court'', ''ct'', ''circle'', ''cir'', ''boulevard'', ''blvd'',
      ''way'', ''place'', ''pl'', ''terrace'', ''ter'', ''parkway'', ''pkwy'',
      ''highway'', ''hwy'', ''trail'', ''trl'', ''plaza'', ''plz'', ''alley'', ''aly'',
      ''loop'', ''square'', ''sq'', ''crossing'', ''xing'', ''run'', ''point'', ''pt'',
      ''pike'', ''row'', ''path'', ''walk'', ''commons'', ''green'', ''crescent'', ''cres'']"

text \<open>
  \<open>re.match(r'^(\d+)\s+(.+)$', s)\<close> on a subject \<open>s\<close> that \<open>strip()\<close> returned:
  all leading digits, then all the whitespace that follows (at least one character), then
  a remainder to the end of the subject in which \<open>.\<close> meets no line feed. The groups
  are the digits and the remainder. Giving whitespace back to \<open>(.+)\<close> cannot repair a
  failure, since the remainder only grows at its front.
\<close>

definition match_number_name :: "string \<Rightarrow> (string \<times> string) option" where
  "match_number_name s =
     (let ds = takeWhile re_digit s;
          r1 = dropWhile re_digit s;
          ws = takeWhile py_isspace r1;
          rest = dropWhile py_isspace r1
      in if ds \<noteq> [] \<and> ws \<noteq> [] \<and> rest \<noteq> [] \<and> CHR 0x0A \<notin> set rest
         then Some (ds, rest) else None)"

text \<open>Lines 452 to 465: the street number and the full street name, or no result.\<close>

definition split_street_number :: "string \<Rightarrow> (string \<times> string) option" where
  "split_street_number address1 =
     (case match_number_name (py_strip address1) of
        Some (street_number, street_name_full) \<Rightarrow> Some (street_number, street_name_full)
      | None \<Rightarrow>
          (let parts = py_split1 (py_strip address1)
           in if length parts \<ge> 2 \<and> py_isdigit (parts ! 0)
              then Some (parts ! 0, parts ! 1) else None))"

text \<open>Lines 469 to 481: the street name without a trailing street type.\<close>

definition street_name_core_of :: "string \<Rightarrow> string" where
  "street_name_core_of street_name_full =
     (let street_name_parts = py_split (py_strip street_name_full)
      in if length street_name_parts > 1
         then (let last_word = py_rstrip_chars ''.'' (py_lower (last street_name_parts))
               in if last_word \<in> set street_types
                  then py_join '' '' (butlast street_name_parts)
                  else street_name_full)
         else street_name_full)"

record decomposed_address =
  street_number :: string
  street_name_full :: string
  street_name_core :: string

definition decompose :: "string \<Rightarrow> decomposed_address option" where
  "decompose address1 =
     (case split_street_number address1 of
        None \<Rightarrow> None
      | Some (num, full) \<Rightarrow>
          Some \<lparr>street_number = num, street_name_full = full,
                street_name_core = street_name_core_of full\<rparr>)"

text \<open>A token of \<open>split()\<close>: not empty, and free of whitespace.\<close>

definition token :: "string \<Rightarrow> bool" where
  "token t = (t \<noteq> [] \<and> list_all (\<lambda>c. \<not> py_isspace c) t)"

section \<open>Python values and dictionaries\<close>

text \<open>
  The values that cross the program's boundaries: database cells, decoded JSON and the
  entries of result dictionaries. A \<open>float\<close> is the real number it denotes (the program
  only subtracts one from it and compares it). A \<open>dict\<close> is an association list in
  insertion order.
\<close>

datatype pyval =
    PNone
  | PBool bool
  | PInt int
  | PFloat real
  | PStr string
  | PList "pyval list"
  | PDict "(string \<times> pyval) list"

type_synonym pydict = "(string \<times> pyval) list"

text \<open>\<open>d[k] = v\<close>: an existing key keeps its place, a new key goes last.\<close>

fun py_setitem :: "'k \<Rightarrow> 'v \<Rightarrow> ('k \<times> 'v) list \<Rightarrow> ('k \<times> 'v) list" where
  "py_setitem k v [] = [(k, v)]"
| "py_setitem k v ((k', v') # d) =
     (if k' = k then (k, v) # d else (k', v') # py_setitem k v d)"

text \<open>\<open>d.get(k, default)\<close>.\<close>

definition py_get :: "('k \<times> 'v) list \<Rightarrow> 'k \<Rightarrow> 'v \<Rightarrow> 'v" where
  "py_get d k dflt = (case map_of d k of None \<Rightarrow> dflt | Some v \<Rightarrow> v)"

text \<open>
  \<open>str(v)\<close>: a string is itself; for every other value the text is the one \<open>repr\<close>
  gives, a parameter of the model (the text of a float, of \<open>None\<close>, of a container).
\<close>

definition py_str :: "(pyval \<Rightarrow> string) \<Rightarrow> pyval \<Rightarrow> string" where
  "py_str repr v = (case v of PStr s \<Rightarrow> s | _ \<Rightarrow> repr v)"

text \<open>The truth value of a value, as \<open>if v:\<close> takes it.\<close>

definition py_truthy :: "pyval \<Rightarrow> bool" where
  "py_truthy v =
     (case v of
        PNone \<Rightarrow> False
      | PBool b \<Rightarrow> b
      | PInt i \<Rightarrow> i \<noteq> 0
      | PFloat x \<Rightarrow> x \<noteq> 0
      | PStr s \<Rightarrow> s \<noteq> []
      | PList xs \<Rightarrow> xs \<noteq> []
      | PDict d \<Rightarrow> d \<noteq> [])"

section \<open>Schema mapping (\<open>golden_source.py\<close>, \<open>_get_pinellas_column_mapping\<close>)\<close>

text \<open>
  The function reads the table's column names from the database, in declaration order;
  that list is the argument \<open>columns\<close> here. \<open>columns_lower\<close> is the dictionary
  comprehension \<open>{col.lower(): col for col in columns}\<close>.
\<close>

definition columns_lower :: "string list \<Rightarrow> (string \<times> string) list" where
  "columns_lower columns = foldl (\<lambda>d col. py_setitem (py_lower col) col d) [] columns"

text \<open>
  The inner loop over \<open>columns_lower.items()\<close> for one pattern: the first column that
  passes the test is bound, if the field is still unbound, and the loop stops.
\<close>

fun scan_columns ::
  "(string \<Rightarrow> string \<Rightarrow> bool) \<Rightarrow> string \<Rightarrow> (string \<times> string) list \<Rightarrow> string option \<Rightarrow> string option"
where
  "scan_columns test pattern [] bound = bound"
| "scan_columns test pattern ((col_lower, col_actual) # items) bound =
     (if test pattern col_lower \<and> bound = None then Some col_actual
      else scan_columns test pattern items bound)"

text \<open>
  The outer loop over the patterns, in priority order; it stops as soon as the field is
  bound to a non-empty name (\<open>if mapping[field]: break\<close>).
\<close>

fun scan_patterns ::
  "(string \<Rightarrow> string \<Rightarrow> bool) \<Rightarrow> string list \<Rightarrow> (string \<times> string) list \<Rightarrow> string option \<Rightarrow> string option"
where
  "scan_patterns test [] items bound = bound"
| "scan_patterns test (pattern # patterns) items bound =
     (let bound' = scan_columns test pattern items bound
      in if bound' \<noteq> None \<and> bound' \<noteq> Some [] then bound'
         else scan_patterns test patterns items bound')"

definition address_patterns :: "string list" where
  "address_patterns = [''address'', ''street'', ''addr'', ''street_address'', ''address1'', ''address_1'']"

definition city_patterns :: "string list" where
  "city_patterns = [''city'', ''mailing_city'', ''mail_city'', ''town'']"

definition state_patterns :: "string list" where
  "state_patterns = [''state'', ''st'', ''province'']"

definition zip_patterns :: "string list" where
  "zip_patterns = [''zip'', ''zipcode'', ''zip_code'', ''postal'', ''postalcode'', ''postal_code'']"

text \<open>The tests of the four loops: \<open>pattern in col_lower\<close>, and the one for the state.\<close>

definition substring_test :: "string \<Rightarrow> string \<Rightarrow> bool" where
  "substring_test pattern col_lower = py_in pattern col_lower"

definition state_test :: "string \<Rightarrow> string \<Rightarrow> bool" where
  "state_test pattern col_lower =
     (col_lower = pattern \<or> (py_in pattern col_lower \<and> \<not> py_in ''estate'' col_lower))"

record column_mapping =
  m_address :: "string option"
  m_city :: "string option"
  m_state :: "string option"
  m_zip :: "string option"

definition get_pinellas_column_mapping :: "string list \<Rightarrow> column_mapping \<times> string list" where
  "get_pinellas_column_mapping columns =
     (let items = columns_lower columns
      in (\<lparr>m_address = scan_patterns substring_test address_patterns items None,
           m_city = scan_patterns substring_test city_patterns items None,
           m_state = scan_patterns state_test state_patterns items None,
           m_zip = scan_patterns substring_test zip_patterns items None\<rparr>,
          columns))"

section \<open>Exact-match check (\<open>address_agent.py\<close>, \<open>_check_exact_match\<close>)\<close>

record sniffed_columns =
  address_col :: "string option"
  city_col :: "string option"
  state_col :: "string option"
  zip_col :: "string option"

text \<open>One turn of the loop over \<open>sample_record.keys()\<close>.\<close>

definition sniff_key :: "sniffed_columns \<Rightarrow> string \<Rightarrow> sniffed_columns" where
  "sniff_key cols key =
     (let key_lower = py_lower key
      in if py_in ''address'' key_lower \<or> py_in ''street'' key_lower
         then (if address_col cols = None then cols\<lparr>address_col := Some key\<rparr> else cols)
         else if py_in ''city'' key_lower \<or> py_in ''town'' key_lower
         then (if city_col cols = None then cols\<lparr>city_col := Some key\<rparr> else cols)
         else if key_lower \<in> set [''state'', ''st'']
         then (if state_col cols = None then cols\<lparr>state_col := Some key\<rparr> else cols)
         else if py_in ''zip'' key_lower \<or> py_in ''postal'' key_lower
         then (if zip_col cols = None then cols\<lparr>zip_col := Some key\<rparr> else cols)
         else cols)"

definition sniff_columns :: "pydict \<Rightarrow> sniffed_columns" where
  "sniff_columns sample_record =
     foldl sniff_key
       \<lparr>address_col = None, city_col = None, state_col = None, zip_col = None\<rparr>
       (map fst sample_record)"

text \<open>\<open>str(d.get(k, '')).strip().lower()\<close>.\<close>

definition normalised_field :: "(pyval \<Rightarrow> string) \<Rightarrow> pydict \<Rightarrow> string \<Rightarrow> string" where
  "normalised_field repr d k = py_lower (py_strip (py_str repr (py_get d k (PStr []))))"

text \<open>
  \<open>str(internal_record.get(col, '')).strip().lower() if col else ''\<close>: an unbound
  column, or one with the empty name, reads as the empty string.
\<close>

definition internal_field :: "(pyval \<Rightarrow> string) \<Rightarrow> pydict \<Rightarrow> string option \<Rightarrow> string" where
  "internal_field repr internal_record col =
     (case col of
        None \<Rightarrow> []
      | Some k \<Rightarrow> if k = [] then [] else normalised_field repr internal_record k)"

record exact_match =
  is_exact_match :: bool
  matched_record :: "pydict option"

text \<open>The loop over the internal records: the first record equal in all four fields.\<close>

fun scan_internal ::
  "(pyval \<Rightarrow> string) \<Rightarrow> string \<times> string \<times> string \<times> string \<Rightarrow> sniffed_columns \<Rightarrow> pydict list \<Rightarrow> exact_match"
where
  "scan_internal repr golden cols [] = \<lparr>is_exact_match = False, matched_record = None\<rparr>"
| "scan_internal repr (golden_addr1, golden_city, golden_state, golden_zip) cols
     (internal_record # records) =
     (let internal_addr = internal_field repr internal_record (address_col cols);
          internal_city = internal_field repr internal_record (city_col cols);
          internal_state = internal_field repr internal_record (state_col cols);
          internal_zip = internal_field repr internal_record (zip_col cols)
      in if golden_addr1 = internal_addr \<and> golden_city = internal_city
            \<and> golden_state = internal_state \<and> golden_zip = internal_zip
         then \<lparr>is_exact_match = True, matched_record = Some internal_record\<rparr>
         else scan_internal repr (golden_addr1, golden_city, golden_state, golden_zip) cols records)"

definition check_exact_match :: "(pyval \<Rightarrow> string) \<Rightarrow> pydict \<Rightarrow> pydict list \<Rightarrow> exact_match" where
  "check_exact_match repr golden_address internal_matches =
     (case internal_matches of
        [] \<Rightarrow> \<lparr>is_exact_match = False, matched_record = None\<rparr>
      | sample_record # _ \<Rightarrow>
          scan_internal repr
            (normalised_field repr golden_address ''address1'',
             normalised_field repr golden_address ''Mailing City'',
             normalised_field repr golden_address ''state'',
             normalised_field repr golden_address ''zipcode'')
            (sniff_columns sample_record) internal_matches)"

text \<open>
  The claim's words, for comparison with the loop: a candidate whose sniffed address,
  city, state and zip fields equal the golden record's \<open>address1\<close>, \<open>Mailing City\<close>,
  \<open>state\<close> and \<open>zipcode\<close> after trimming and lowercasing.
\<close>

definition fields_equal :: "(pyval \<Rightarrow> string) \<Rightarrow> pydict \<Rightarrow> sniffed_columns \<Rightarrow> pydict \<Rightarrow> bool" where
  "fields_equal repr golden_address cols internal_record =
     (normalised_field repr golden_address ''address1'' = internal_field repr internal_record (address_col cols)
      \<and> normalised_field repr golden_address ''Mailing City'' = internal_field repr internal_record (city_col cols)
      \<and> normalised_field repr golden_address ''state'' = internal_field repr internal_record (state_col cols)
      \<and> normalised_field repr golden_address ''zipcode'' = internal_field repr internal_record (zip_col cols))"

section \<open>Exceptions, integers as text\<close>

text \<open>The exceptions the modelled code can raise, each with its message.\<close>

datatype py_exn =
    TypeError string
  | AttributeError string
  | ValueError string
  | IndexError string
  | KeyError string
  | OverflowError string
  | ExternalError string

text \<open>\<open>str(e)\<close>: the message; for a \<open>KeyError\<close> the key between apostrophes.\<close>

fun exn_str :: "py_exn \<Rightarrow> string" where
  "exn_str (TypeError m) = m"
| "exn_str (AttributeError m) = m"
| "exn_str (ValueError m) = m"
| "exn_str (IndexError m) = m"
| "exn_str (KeyError k) = [CHR 0x27] @ k @ [CHR 0x27]"
| "exn_str (OverflowError m) = m"
| "exn_str (ExternalError m) = m"

text \<open>\<open>d[k]\<close> on a dictionary.\<close>

definition py_getitem :: "pydict \<Rightarrow> string \<Rightarrow> py_exn + pyval" where
  "py_getitem d k = (case map_of d k of None \<Rightarrow> Inl (KeyError k) | Some v \<Rightarrow> Inr v)"

definition digit_chars :: "(char \<times> nat) list" where
  "digit_chars = zip ''0123456789'' [0, 1, 2, 3, 4, 5, 6, 7, 8, 9]"

text \<open>\<open>str(n)\<close> for an integer.\<close>

fun str_nat :: "nat \<Rightarrow> string" where
  "str_nat n = (if n < 10 then [''0123456789'' ! n] else str_nat (n div 10) @ [''0123456789'' ! (n mod 10)])"

declare str_nat.simps [simp del]

definition str_int :: "int \<Rightarrow> string" where
  "str_int i = (if i < 0 then ''-'' @ str_nat (nat (- i)) else str_nat (nat i))"

text \<open>
  \<open>int(s)\<close> for a string: surrounding whitespace, an optional sign, then decimal digits
  in groups separated by single underscores. \<open>None\<close> stands for the \<open>ValueError\<close>.
  The whitespace \<open>int\<close> skips is not the one \<open>strip\<close> removes: of the code points
  below 256 it is tab, line feed, vertical tab, form feed, carriage return and space, and
  the two spaces outside ASCII (0x85, 0xA0), but not the separators 0x1C to 0x1F.
  \<open>max_str_digits\<close> is \<open>sys.get_int_max_str_digits()\<close>: when it is not zero, a
  string of more digits than this limit (and than 640) is refused; zero stands for no
  limit, as in the versions of Python that have none.
\<close>

definition int_isspace :: "char \<Rightarrow> bool" where
  "int_isspace c = (c \<in> set [CHR 0x09, CHR 0x0A, CHR 0x0B, CHR 0x0C, CHR 0x0D, CHR 0x20,
     CHR 0x85, CHR 0xA0])"

definition int_strip :: "string \<Rightarrow> string" where
  "int_strip s = rev (dropWhile int_isspace (rev (dropWhile int_isspace s)))"

fun parse_digits :: "nat \<Rightarrow> bool \<Rightarrow> string \<Rightarrow> nat option" where
  "parse_digits acc after_digit [] = (if after_digit then Some acc else None)"
| "parse_digits acc after_digit (c # cs) =
     (case map_of digit_chars c of
        Some v \<Rightarrow> parse_digits (acc * 10 + v) True cs
      | None \<Rightarrow> if c = CHR ''_'' \<and> after_digit then parse_digits acc False cs else None)"

definition too_many_digits :: "nat \<Rightarrow> string \<Rightarrow> bool" where
  "too_many_digits max_str_digits body =
     (let digits = length (filter (\<lambda>c. c \<noteq> CHR ''_'') body)
      in 640 < digits \<and> 0 < max_str_digits \<and> max_str_digits < digits)"

definition py_int :: "nat \<Rightarrow> string \<Rightarrow> int option" where
  "py_int max_str_digits s =
     (case int_strip s of
        [] \<Rightarrow> None
      | c # cs \<Rightarrow>
          (let negative = (c = CHR ''-'');
               body = (if c = CHR ''-'' \<or> c = CHR ''+'' then cs else c # cs)
           in case parse_digits 0 False body of
                None \<Rightarrow> None
              | Some n \<Rightarrow>
                  if too_many_digits max_str_digits body then None
                  else Some (if negative then - int n else int n)))"

text \<open>Numbers: \<open>int\<close>, \<open>float\<close> and \<open>bool\<close> (which is an \<open>int\<close>), with their values.\<close>

definition py_is_number :: "pyval \<Rightarrow> bool" where
  "py_is_number v = (case v of PInt _ \<Rightarrow> True | PFloat _ \<Rightarrow> True | PBool _ \<Rightarrow> True | _ \<Rightarrow> False)"

definition py_num :: "pyval \<Rightarrow> real" where
  "py_num v =
     (case v of PInt i \<Rightarrow> real_of_int i | PFloat x \<Rightarrow> x | PBool b \<Rightarrow> (if b then 1 else 0) | _ \<Rightarrow> 0)"

text \<open>\<open>v - 1\<close>.\<close>

definition py_minus_one :: "pyval \<Rightarrow> py_exn + pyval" where
  "py_minus_one v =
     (case v of
        PInt i \<Rightarrow> Inr (PInt (i - 1))
      | PBool b \<Rightarrow> Inr (PInt ((if b then 1 else 0) - 1))
      | PFloat x \<Rightarrow> Inr (PFloat (x - 1))
      | _ \<Rightarrow> Inl (TypeError ''unsupported operand type(s) for -''))"

text \<open>\<open>xs[i]\<close>: a negative index counts from the end, a float is no index.\<close>

definition index_int :: "'a list \<Rightarrow> int \<Rightarrow> py_exn + 'a" where
  "index_int xs n =
     (let j = (if n < 0 then n + int (length xs) else n)
      in if 0 \<le> j \<and> j < int (length xs) then Inr (xs ! nat j)
         else Inl (IndexError ''list index out of range''))"

definition py_index :: "'a list \<Rightarrow> pyval \<Rightarrow> py_exn + 'a" where
  "py_index xs i =
     (case i of
        PInt n \<Rightarrow> index_int xs n
      | PBool b \<Rightarrow> index_int xs (if b then 1 else 0)
      | _ \<Rightarrow> Inl (TypeError ''list indices must be integers or slices''))"

text \<open>\<open>len(v)\<close> and \<open>v.items()\<close>, as far as the code applies them to decoded JSON.\<close>

definition py_len :: "pyval \<Rightarrow> py_exn + nat" where
  "py_len v =
     (case v of
        PStr s \<Rightarrow> Inr (length s)
      | PList xs \<Rightarrow> Inr (length xs)
      | PDict d \<Rightarrow> Inr (length d)
      | _ \<Rightarrow> Inl (TypeError ''object has no len()''))"

definition py_items :: "pyval \<Rightarrow> py_exn + pydict" where
  "py_items v =
     (case v of PDict d \<Rightarrow> Inr d | _ \<Rightarrow> Inl (AttributeError ''object has no attribute items''))"

text \<open>
  \<open>f"{v:.2f}"\<close> succeeds on numbers only, and an \<open>int\<close> is converted to a float
  first: one that rounds to \<open>2 ^ 1024\<close> or beyond is an \<open>OverflowError\<close>.
\<close>

definition float_overflow :: "int \<Rightarrow> bool" where
  "float_overflow i = (2 ^ 1024 - 2 ^ 970 \<le> \<bar>i\<bar>)"

definition py_format_f :: "pyval \<Rightarrow> py_exn + unit" where
  "py_format_f v =
     (case v of
        PInt i \<Rightarrow> if float_overflow i then Inl (OverflowError ''int too large to convert to float'')
                  else Inr ()
      | PFloat _ \<Rightarrow> Inr ()
      | PBool _ \<Rightarrow> Inr ()
      | PStr _ \<Rightarrow> Inl (ValueError ''Unknown format code f for object of type str'')
      | _ \<Rightarrow> Inl (TypeError ''unsupported format string passed to __format__''))"

section \<open>Recovering the verdict (\<open>address_agent.py\<close>, \<open>_parse_claude_response\<close>)\<close>

text \<open>
  \<open>json.loads\<close> belongs to Python's library; it is the parameter \<open>loads\<close>, with
  \<open>None\<close> for a \<open>JSONDecodeError\<close>.

  The second tier is
  \<open>re.search(r'```(?:json)?\s*(\{.*?\})\s*```', response_text, re.DOTALL)\<close>.
  At a position where the text starts with three backquotes, the optional \<open>json\<close> and
  all the whitespace after it are taken (taking less leaves a character that is no brace
  in front of \<open>\{\<close>); then a brace must follow, and the group ends at the first closing
  brace after which only whitespace separates it from three backquotes.
\<close>

fun close_block :: "string \<Rightarrow> string \<Rightarrow> string option" where
  "close_block grp [] = None"
| "close_block grp (c # cs) =
     (if c = CHR ''}'' \<and> startswith (py_lstrip cs) ''```'' then Some (grp @ [c])
      else close_block (grp @ [c]) cs)"

definition match_block_at :: "string \<Rightarrow> string option" where
  "match_block_at s =
     (if startswith s ''```''
      then (let r = drop 3 s;
                r1 = (if startswith r ''json'' then drop 4 r else r)
            in case py_lstrip r1 of
                 [] \<Rightarrow> None
               | c # cs \<Rightarrow> if c = CHR ''{'' then close_block [c] cs else None)
      else None)"

text \<open>\<open>re.search\<close>: the leftmost position with a match; the result is \<open>group(1)\<close>.\<close>

fun search_block :: "string \<Rightarrow> string option" where
  "search_block [] = None"
| "search_block (c # cs) =
     (case match_block_at (c # cs) of Some g \<Rightarrow> Some g | None \<Rightarrow> search_block cs)"

text \<open>
  The third tier: the loop from the first opening brace. \<open>seen\<close> is
  \<open>response_text[start_idx:i]\<close>. The result is what \<open>json.loads\<close> makes of the text up
  to the brace that brings the count to zero; \<open>None\<close> when decoding fails there
  (\<open>break\<close>) or the text ends first.
\<close>

fun scan_braces ::
  "(string \<Rightarrow> pyval option) \<Rightarrow> string \<Rightarrow> int \<Rightarrow> bool \<Rightarrow> bool \<Rightarrow> string \<Rightarrow> pyval option"
where
  "scan_braces loads seen bracket_count in_string escape_next [] = None"
| "scan_braces loads seen bracket_count in_string escape_next (char # rest) =
     (if escape_next then scan_braces loads (seen @ [char]) bracket_count in_string False rest
      else if char = CHR 0x5C
      then scan_braces loads (seen @ [char]) bracket_count in_string True rest
      else if char = CHR 0x22
      then scan_braces loads (seen @ [char]) bracket_count (\<not> in_string) False rest
      else if \<not> in_string
      then (if char = CHR ''{''
            then scan_braces loads (seen @ [char]) (bracket_count + 1) in_string False rest
            else if char = CHR ''}''
            then (if bracket_count - 1 = 0 then loads (seen @ [char])
                  else scan_braces loads (seen @ [char]) (bracket_count - 1) in_string False rest)
            else scan_braces loads (seen @ [char]) bracket_count in_string False rest)
      else scan_braces loads (seen @ [char]) bracket_count in_string False rest)"

definition raw_text_result :: "string \<Rightarrow> pyval" where
  "raw_text_result response_text =
     PDict [(''raw_text'', PStr response_text),
            (''note'', PStr ''Could not parse JSON from Claude response'')]"

definition parse_claude_response :: "(string \<Rightarrow> pyval option) \<Rightarrow> string \<Rightarrow> pyval" where
  "parse_claude_response loads response_text =
     (case loads (py_strip response_text) of
        Some v \<Rightarrow> v
      | None \<Rightarrow>
          (case (case search_block response_text of
                   Some json_code_block \<Rightarrow> loads json_code_block
                 | None \<Rightarrow> None) of
             Some v \<Rightarrow> v
           | None \<Rightarrow>
               (case scan_braces loads [] 0 False False
                       (dropWhile (\<lambda>c. c \<noteq> CHR ''{'') response_text) of
                  Some v \<Rightarrow> v
                | None \<Rightarrow> raw_text_result response_text)))"

section \<open>Candidates and the review (\<open>address_agent.py\<close>, \<open>_review_fuzzy_matches_with_claude\<close>)\<close>

text \<open>
  Modelled from the spec: \<open>GoldenSourceConnector.fuzzy_match_addresses\<close> is not among
  the sources, so the records it returns follow the spec's data model (AddressRecord): the
  canonical text \<open>MasterAddress\<close>, the metadata \<open>_similarity_score\<close> (a number),
  \<open>_source_type\<close> and \<open>_source_table\<close>, the columns of the row, and the note
  \<open>_ai_analysis\<close> that \<open>match_address\<close> attaches. A key the code reads with
  \<open>get(key, default)\<close> may be absent.
\<close>

record address_record =
  MasterAddress :: "string option"
  similarity_score :: "real option"
  source_type :: "string option"
  source_table :: "string option"
  ai_analysis :: "pyval option"
  row_columns :: pydict

record match_results =
  mr_golden_source_matches :: "address_record list"
  mr_internal_matches :: "address_record list"
  mr_total_matches :: int

text \<open>
  The candidate dictionaries are shared objects: \<open>all_matches\<close>, the two slices and
  \<open>best_match\<close> refer to the dictionaries of the two lists, and \<open>match_address\<close>
  writes \<open>_ai_analysis\<close> into them afterwards. A reference is the list and the position
  of the dictionary in it; \<open>NewDict\<close> is the empty dictionary the review creates when
  there is no candidate.
\<close>

datatype source = GoldenSource | Internal

type_synonym cand_ref = "source \<times> nat"

datatype obj = Candidate source nat | NewDict

definition deref :: "address_record list \<Rightarrow> address_record list \<Rightarrow> cand_ref \<Rightarrow> address_record" where
  "deref gs ints r = (case r of (GoldenSource, i) \<Rightarrow> gs ! i | (Internal, i) \<Rightarrow> ints ! i)"

definition refs_of :: "source \<Rightarrow> 'a list \<Rightarrow> cand_ref list" where
  "refs_of s xs = map (Pair s) [0..<length xs]"

definition obj_of :: "cand_ref \<Rightarrow> obj" where
  "obj_of r = Candidate (fst r) (snd r)"

text \<open>\<open>match.get('_similarity_score', 0)\<close>, as a number and as a value.\<close>

definition score_of :: "address_record \<Rightarrow> real" where
  "score_of m = (case similarity_score m of None \<Rightarrow> 0 | Some x \<Rightarrow> x)"

definition score_val :: "address_record \<Rightarrow> pyval" where
  "score_val m = (case similarity_score m of None \<Rightarrow> PInt 0 | Some x \<Rightarrow> PFloat x)"

text \<open>
  The collaborators of the agent: the candidate retrieval, the reasoning-model client
  (the prompt goes in; an exception or the text of the first content block comes out),
  the JSON decoder, the formatting of a float with a number of decimals, and the
  interpreter's limit on the digits of a string that \<open>int\<close> converts.
\<close>

record env =
  fuzzy_match_addresses :: "string \<Rightarrow> real option \<Rightarrow> py_exn + match_results"
  messages_create :: "string \<Rightarrow> py_exn + string"
  json_loads :: "string \<Rightarrow> pyval option"
  format_float :: "nat \<Rightarrow> real \<Rightarrow> string"
  int_max_str_digits :: nat

subsection \<open>The prompt\<close>

definition newline :: string where
  "newline = [CHR 0x0A]"

definition matches_summary ::
  "env \<Rightarrow> string \<Rightarrow> address_record list \<Rightarrow> string list" where
  "matches_summary e label ms =
     map (\<lambda>(idx, m). label @ ''-'' @ str_nat idx @ ''. ['' @ format_float e 1 (score_of m) @ ''%] ''
                       @ (case MasterAddress m of None \<Rightarrow> ''N/A'' | Some a \<Rightarrow> a))
         (enumerate 1 ms)"

definition matches_section :: "string \<Rightarrow> string list \<Rightarrow> string" where
  "matches_section title summary =
     (if summary \<noteq> [] then title @ newline @ py_join newline summary
      else title @ newline @ ''None'')"

definition prompt_task :: "string list" where
  \<open>prompt_task =
     [''CRITICAL TASK:'',
      ''1. You MUST analyze EVERY match listed above individually (1-2 sentences each)'',
      ''2. For each match, provide an assessment and confidence score'',
      ''3. Determine which is the overall best match'',
      ''4. Consider ONLY: street number, street name, city, and state'',
      ''5. DO NOT consider zip codes in your analysis - they were already normalized before matching'',
      ''6. In your assessments, DO NOT use labels like "GS-1" or "INT-1" - just describe the address directly (e.g., "This address matches perfectly" not "GS-1 matches perfectly")'',
      '''',
      ''Return your analysis in JSON format with analysis for EVERY match:'',
      ''{'',
      ''    "match_found": true/false,'',
      ''    "best_match_source": "golden_source" or "internal",'',
      ''    "best_match_index": 1-based index within that source,'',
      ''    "confidence": 0-100,'',
      ''    "reasoning": "Why this is the best overall match",'',
      ''    "concerns": "Any concerns (or null)",'',
      ''    "golden_source_analyses": {'',
      ''        "1": {"assessment": "Analysis of GS-1", "confidence": 0-100},'',
      ''        "2": {"assessment": "Analysis of GS-2", "confidence": 0-100},'',
      ''        ... (include ALL Golden Source matches)'',
      ''    },'',
      ''    "internal_analyses": {'',
      ''        "1": {"assessment": "Analysis of INT-1", "confidence": 0-100},'',
      ''        "2": {"assessment": "Analysis of INT-2", "confidence": 0-100},'',
      ''        ... (include ALL Internal matches)'',
      ''    }'',
      ''}'']\<close>

definition build_prompt ::
  "env \<Rightarrow> string \<Rightarrow> address_record list \<Rightarrow> address_record list \<Rightarrow> string" where
  "build_prompt e input_address golden_source_matches internal_matches =
     py_join newline
       ([''You are an address matching expert. Review these fuzzy match results and provide detailed analysis FOR EVERY SINGLE MATCH.'',
         '''',
         ''INPUT ADDRESS:'',
         input_address,
         '''',
         matches_section ''GOLDEN SOURCE MATCHES:''
           (matches_summary e ''GS'' golden_source_matches),
         '''',
         matches_section ''INTERNAL MATCHES:''
           (matches_summary e ''INT'' internal_matches),
         ''''] @ prompt_task)"

subsection \<open>The verdict\<close>

record claude_review =
  cr_match_found :: pyval
  cr_best_match :: obj
  cr_confidence :: pyval
  cr_reasoning :: pyval
  cr_concerns :: pyval
  cr_fuzzy_score :: pyval
  cr_match_analyses :: pydict

text \<open>\<open>0 <= best_match_index < len(xs)\<close>.\<close>

definition index_in_range :: "pyval \<Rightarrow> nat \<Rightarrow> bool" where
  "index_in_range best_match_index n = (0 \<le> py_num best_match_index \<and> py_num best_match_index < real n)"

text \<open>Lines 323 to 333: the candidate the verdict points to.\<close>

definition recommended_match ::
  "pydict \<Rightarrow> cand_ref list \<Rightarrow> cand_ref list \<Rightarrow> cand_ref list \<Rightarrow> py_exn + obj" where
  "recommended_match parsed_response all_matches golden_source_matches internal_matches =
     (let best_match_source = py_get parsed_response ''best_match_source'' (PStr ''golden_source'')
      in case py_minus_one (py_get parsed_response ''best_match_index'' (PInt 1)) of
           Inl ex \<Rightarrow> Inl ex
         | Inr best_match_index \<Rightarrow>
             if best_match_source = PStr ''golden_source''
                \<and> index_in_range best_match_index (length golden_source_matches)
             then map_sum id obj_of (py_index golden_source_matches best_match_index)
             else if best_match_source = PStr ''internal''
                \<and> index_in_range best_match_index (length internal_matches)
             then map_sum id obj_of (py_index internal_matches best_match_index)
             else if length all_matches > 0 then Inr (obj_of (all_matches ! 0))
             else Inr NewDict)"

text \<open>
  Lines 341 to 347 and 352 to 358: a key that \<open>int\<close> rejects is skipped; an analysis
  that is no dictionary has no \<open>get\<close>, which is an \<open>AttributeError\<close> and leaves the loop.
\<close>

fun convert_analyses :: "nat \<Rightarrow> string \<Rightarrow> pydict \<Rightarrow> pydict \<Rightarrow> py_exn + pydict" where
  "convert_analyses max_digits prefix [] converted_analyses = Inr converted_analyses"
| "convert_analyses max_digits prefix ((idx_str, analysis) # items) converted_analyses =
     (case py_int max_digits idx_str of
        None \<Rightarrow> convert_analyses max_digits prefix items converted_analyses
      | Some n \<Rightarrow>
          (case analysis of
             PDict _ \<Rightarrow>
               convert_analyses max_digits prefix items
                 (py_setitem (prefix @ str_int (n - 1)) analysis converted_analyses)
           | _ \<Rightarrow> Inl (AttributeError ''object has no attribute get'')))"

definition source_analyses ::
  "nat \<Rightarrow> pydict \<Rightarrow> string \<Rightarrow> string \<Rightarrow> pydict \<Rightarrow> py_exn + pydict" where
  "source_analyses max_digits parsed_response key prefix converted_analyses =
     (let analyses = py_get parsed_response key (PDict [])
      in case py_len analyses of
           Inl ex \<Rightarrow> Inl ex
         | Inr _ \<Rightarrow>
             (case py_items analyses of
                Inl ex \<Rightarrow> Inl ex
              | Inr items \<Rightarrow> convert_analyses max_digits prefix items converted_analyses))"

text \<open>\<open>all_matches[0].get('_similarity_score', 0) if all_matches else 0\<close>.\<close>

definition top_score ::
  "address_record list \<Rightarrow> address_record list \<Rightarrow> cand_ref list \<Rightarrow> pyval" where
  "top_score gs ints all_matches =
     (case all_matches of [] \<Rightarrow> PInt 0 | first_match # _ \<Rightarrow> score_val (deref gs ints first_match))"

text \<open>Lines 321 to 370: the answer built from a decoded dictionary.\<close>

definition review_of_dict ::
  "env \<Rightarrow> address_record list \<Rightarrow> address_record list \<Rightarrow> pydict \<Rightarrow> cand_ref list \<Rightarrow> cand_ref list
     \<Rightarrow> cand_ref list \<Rightarrow> py_exn + claude_review" where
  "review_of_dict e gs ints parsed_response all_matches golden_source_matches internal_matches =
     (case recommended_match parsed_response all_matches golden_source_matches internal_matches of
        Inl ex \<Rightarrow> Inl ex
      | Inr recommended \<Rightarrow>
          (case source_analyses (int_max_str_digits e) parsed_response
                  ''golden_source_analyses'' ''gs_'' [] of
             Inl ex \<Rightarrow> Inl ex
           | Inr gs_converted \<Rightarrow>
               (case source_analyses (int_max_str_digits e) parsed_response
                       ''internal_analyses'' ''int_'' gs_converted of
                  Inl ex \<Rightarrow> Inl ex
                | Inr converted_analyses \<Rightarrow>
                    Inr \<lparr>cr_match_found = py_get parsed_response ''match_found'' (PBool True),
                         cr_best_match = recommended,
                         cr_confidence =
                           py_get parsed_response ''confidence'' (top_score gs ints all_matches),
                         cr_reasoning =
                           py_get parsed_response ''reasoning'' (PStr ''Claude reviewed the matches''),
                         cr_concerns = py_get parsed_response ''concerns'' PNone,
                         cr_fuzzy_score = top_score gs ints all_matches,
                         cr_match_analyses = converted_analyses\<rparr>)))"

text \<open>
  Lines 373 to 381 and 386 to 394: the answer built from the first of \<open>all_matches\<close>;
  \<open>all_matches[0]\<close> raises when there is no candidate.
\<close>

definition fuzzy_fallback ::
  "address_record list \<Rightarrow> address_record list \<Rightarrow> cand_ref list \<Rightarrow> string \<Rightarrow> py_exn + claude_review" where
  "fuzzy_fallback gs ints all_matches reasoning =
     (case all_matches of
        [] \<Rightarrow> Inl (IndexError ''list index out of range'')
      | first_match # _ \<Rightarrow>
          Inr \<lparr>cr_match_found = PBool True,
               cr_best_match = obj_of first_match,
               cr_confidence = score_val (deref gs ints first_match),
               cr_reasoning = PStr reasoning,
               cr_concerns = PNone,
               cr_fuzzy_score = score_val (deref gs ints first_match),
               cr_match_analyses = []\<rparr>)"

text \<open>The body of the \<open>try\<close>, from the prompt that was sent.\<close>

definition review_try ::
  "env \<Rightarrow> address_record list \<Rightarrow> address_record list \<Rightarrow> string \<Rightarrow> cand_ref list \<Rightarrow> cand_ref list
     \<Rightarrow> cand_ref list \<Rightarrow> py_exn + claude_review" where
  "review_try e gs ints prompt all_matches golden_source_matches internal_matches =
     (case messages_create e prompt of
        Inl ex \<Rightarrow> Inl ex
      | Inr response_text \<Rightarrow>
          (case parse_claude_response (json_loads e) response_text of
             PDict parsed_response \<Rightarrow>
               review_of_dict e gs ints parsed_response all_matches golden_source_matches
                 internal_matches
           | _ \<Rightarrow>
               fuzzy_fallback gs ints all_matches
                 ''Using fuzzy match result (Claude review unavailable)''))"

text \<open>
  The review: the result, or the exception that leaves the \<open>except\<close> block, and the
  prompts that were handed to the client. \<open>gs\<close> and \<open>ints\<close> are the two candidate
  lists the references point into.
\<close>

definition review_fuzzy_matches_with_claude ::
  "env \<Rightarrow> address_record list \<Rightarrow> address_record list \<Rightarrow> string \<Rightarrow> cand_ref list \<Rightarrow> cand_ref list
     \<Rightarrow> cand_ref list \<Rightarrow> (py_exn + claude_review) \<times> string list" where
  "review_fuzzy_matches_with_claude e gs ints input_address all_matches golden_source_matches
     internal_matches =
     (let prompt = build_prompt e input_address (map (deref gs ints) golden_source_matches)
                     (map (deref gs ints) internal_matches)
      in (case review_try e gs ints prompt all_matches golden_source_matches internal_matches of
            Inr r \<Rightarrow> Inr r
          | Inl ex \<Rightarrow>
              fuzzy_fallback gs ints all_matches
                (''Using fuzzy match result (Claude review failed: '' @ exn_str ex @ '')''),
          [prompt]))"

section \<open>The agent (\<open>address_agent.py\<close>, \<open>match_address\<close>)\<close>

text \<open>The two thresholds of \<open>config\<close>, a module that is not among the sources.\<close>

record config =
  FUZZY_MATCH_THRESHOLD :: real
  CONFIDENCE_THRESHOLD :: real

text \<open>
  The dictionary \<open>match_address\<close> returns. The keys that only the second dictionary
  literal has are \<open>None\<close> in the first.
\<close>

record match_result =
  r_input_address :: string
  r_match_found :: bool
  r_best_match :: "obj option"
  r_golden_source_matches :: "address_record list"
  r_internal_matches :: "address_record list"
  r_has_golden_source :: bool
  r_has_internal :: bool
  r_similarity_score :: "pyval option"
  r_confidence :: "pyval option"
  r_reasoning :: pyval
  r_claude_review :: "claude_review option"
  r_business_rule_exception :: "bool option"
  r_confidence_threshold :: "real option"
  r_candidates_searched :: int
  r_search_method :: string
  r_matched_address :: "obj option"

definition no_match_result :: "string \<Rightarrow> match_result" where
  "no_match_result input_address =
     \<lparr>r_input_address = input_address,
      r_match_found = False,
      r_best_match = None,
      r_golden_source_matches = [],
      r_internal_matches = [],
      r_has_golden_source = False,
      r_has_internal = False,
      r_similarity_score = None,
      r_confidence = None,
      r_reasoning = PStr ''No addresses found matching the search criteria with sufficient similarity in either table.'',
      r_claude_review = None,
      r_business_rule_exception = None,
      r_confidence_threshold = None,
      r_candidates_searched = 0,
      r_search_method = ''fuzzy_match'',
      r_matched_address = None\<rparr>"

text \<open>
  \<open>all_matches.sort(key=..., reverse=True)\<close>: descending by score, candidates of equal
  score in their order of the concatenation.
\<close>

definition sort_matches :: "address_record list \<Rightarrow> address_record list \<Rightarrow> cand_ref list" where
  "sort_matches gs ints =
     sort_key (\<lambda>r. - score_of (deref gs ints r)) (refs_of GoldenSource gs @ refs_of Internal ints)"

text \<open>Lines 143 to 158: the analyses written into the first ten records of a list.\<close>

definition attach_analyses :: "string \<Rightarrow> pydict \<Rightarrow> address_record list \<Rightarrow> address_record list" where
  "attach_analyses prefix match_analyses ms =
     map (\<lambda>(idx, m). case map_of match_analyses (prefix @ str_nat idx) of
                        Some analysis \<Rightarrow> m\<lparr>ai_analysis := Some analysis\<rparr>
                      | None \<Rightarrow> m)
         (enumerate 0 (take 10 ms))
     @ drop 10 ms"

text \<open>
  Lines 161 to 168. The default \<open>all_matches[0]\<close> of \<open>claude_review.get\<close> is evaluated
  before the call, so both branches raise when there is no candidate.
\<close>

definition choose_best ::
  "address_record list \<Rightarrow> address_record list \<Rightarrow> cand_ref list \<Rightarrow> claude_review
     \<Rightarrow> py_exn + (obj \<times> pyval \<times> pyval)" where
  "choose_best gs ints all_matches claude_review =
     (case all_matches of
        [] \<Rightarrow> Inl (IndexError ''list index out of range'')
      | first_match # _ \<Rightarrow>
          if py_truthy (cr_match_found claude_review)
          then Inr (cr_best_match claude_review, cr_confidence claude_review,
                    cr_reasoning claude_review)
          else Inr (obj_of first_match, score_val (deref gs ints first_match), cr_reasoning claude_review))"

definition match_address ::
  "env \<Rightarrow> config \<Rightarrow> string \<Rightarrow> real option \<Rightarrow> (py_exn + match_result) \<times> string list" where
  "match_address e cfg input_address threshold =
     (case fuzzy_match_addresses e input_address threshold of
        Inl ex \<Rightarrow> (Inl ex, [])
      | Inr match_results \<Rightarrow>
          (let golden_source_matches = mr_golden_source_matches match_results;
               internal_matches = mr_internal_matches match_results;
               total_matches = mr_total_matches match_results
           in if total_matches = 0 then (Inr (no_match_result input_address), [])
              else
                (let all_matches = sort_matches golden_source_matches internal_matches;
                     (reviewed, sent) =
                       review_fuzzy_matches_with_claude e golden_source_matches internal_matches
                         input_address (take 10 all_matches)
                         (take 10 (refs_of GoldenSource golden_source_matches))
                         (take 10 (refs_of Internal internal_matches))
                 in case reviewed of
                      Inl ex \<Rightarrow> (Inl ex, sent)
                    | Inr claude_review \<Rightarrow>
                        (case choose_best golden_source_matches internal_matches all_matches
                                claude_review of
                           Inl ex \<Rightarrow> (Inl ex, sent)
                         | Inr (best_match, best_score, claude_reasoning) \<Rightarrow>
                             (case py_format_f best_score of
                                Inl ex \<Rightarrow> (Inl ex, sent)
                              | Inr _ \<Rightarrow>
                                  (Inr \<lparr>r_input_address = input_address,
                                        r_match_found = True,
                                        r_best_match = Some best_match,
                                        r_golden_source_matches =
                                          attach_analyses ''gs_'' (cr_match_analyses claude_review)
                                            golden_source_matches,
                                        r_internal_matches =
                                          attach_analyses ''int_'' (cr_match_analyses claude_review)
                                            internal_matches,
                                        r_has_golden_source = (length golden_source_matches > 0),
                                        r_has_internal = (length internal_matches > 0),
                                        r_similarity_score = Some best_score,
                                        r_confidence = Some best_score,
                                        r_reasoning = claude_reasoning,
                                        r_claude_review = Some claude_review,
                                        r_business_rule_exception =
                                          Some (py_num best_score < FUZZY_MATCH_THRESHOLD cfg),
                                        r_confidence_threshold = Some (FUZZY_MATCH_THRESHOLD cfg),
                                        r_candidates_searched = total_matches,
                                        r_search_method = ''fuzzy_match_with_ai'',
                                        r_matched_address = Some best_match\<rparr>,
                                   sent))))))"

section \<open>The command line (\<open>main_alt.py\<close>, \<open>main\<close>)\<close>

subsection \<open>The result as the dictionary \<open>main\<close> receives\<close>

definition opt_entry :: "string \<Rightarrow> ('a \<Rightarrow> pyval) \<Rightarrow> 'a option \<Rightarrow> pydict" where
  "opt_entry k f x = (case x of None \<Rightarrow> [] | Some v \<Rightarrow> [(k, f v)])"

definition record_to_py :: "address_record \<Rightarrow> pyval" where
  "record_to_py m =
     PDict (row_columns m
            @ opt_entry ''MasterAddress'' PStr (MasterAddress m)
            @ opt_entry ''_similarity_score'' PFloat (similarity_score m)
            @ opt_entry ''_source_type'' PStr (source_type m)
            @ opt_entry ''_source_table'' PStr (source_table m)
            @ opt_entry ''_ai_analysis'' id (ai_analysis m))"

definition obj_to_py :: "address_record list \<Rightarrow> address_record list \<Rightarrow> obj \<Rightarrow> pyval" where
  "obj_to_py gs ints ob =
     (case ob of
        NewDict \<Rightarrow> PDict []
      | Candidate s i \<Rightarrow> record_to_py (deref gs ints (s, i)))"

definition review_to_py :: "address_record list \<Rightarrow> address_record list \<Rightarrow> claude_review \<Rightarrow> pyval" where
  "review_to_py gs ints cr =
     PDict [(''match_found'', cr_match_found cr),
            (''best_match'', obj_to_py gs ints (cr_best_match cr)),
            (''confidence'', cr_confidence cr),
            (''reasoning'', cr_reasoning cr),
            (''concerns'', cr_concerns cr),
            (''fuzzy_score'', cr_fuzzy_score cr),
            (''match_analyses'', PDict (cr_match_analyses cr))]"

text \<open>The keys of the two dictionary literals of \<open>match_address\<close>, in their order.\<close>

definition result_dict :: "match_result \<Rightarrow> pydict" where
  "result_dict r =
     (let gs = r_golden_source_matches r; ints = r_internal_matches r
      in if r_match_found r
         then [(''input_address'', PStr (r_input_address r)),
               (''match_found'', PBool True)]
              @ opt_entry ''best_match'' (obj_to_py gs ints) (r_best_match r)
              @ [(''golden_source_matches'', PList (map record_to_py gs)),
                 (''internal_matches'', PList (map record_to_py ints)),
                 (''has_golden_source'', PBool (r_has_golden_source r)),
                 (''has_internal'', PBool (r_has_internal r))]
              @ opt_entry ''similarity_score'' id (r_similarity_score r)
              @ opt_entry ''confidence'' id (r_confidence r)
              @ [(''reasoning'', r_reasoning r)]
              @ opt_entry ''claude_review'' (review_to_py gs ints) (r_claude_review r)
              @ opt_entry ''business_rule_exception'' PBool (r_business_rule_exception r)
              @ opt_entry ''confidence_threshold'' PFloat (r_confidence_threshold r)
              @ [(''candidates_searched'', PInt (r_candidates_searched r)),
                 (''search_method'', PStr (r_search_method r))]
              @ opt_entry ''matched_address'' (obj_to_py gs ints) (r_matched_address r)
         else [(''input_address'', PStr (r_input_address r)),
               (''match_found'', PBool False),
               (''golden_source_matches'', PList (map record_to_py gs)),
               (''internal_matches'', PList (map record_to_py ints)),
               (''reasoning'', r_reasoning r),
               (''candidates_searched'', PInt (r_candidates_searched r)),
               (''search_method'', PStr (r_search_method r)),
               (''has_golden_source'', PBool (r_has_golden_source r)),
               (''has_internal'', PBool (r_has_internal r))])"

subsection \<open>The program\<close>

text \<open>
  What \<open>main\<close> meets outside: the variable \<open>GOLDEN_SOURCE_TABLE_ALT\<close> of the
  environment; \<open>AddressAgent()\<close>, which raises or gives an agent, here the agent's
  \<open>match_address\<close> as a function of the input address; and the text of a value that is
  no string. The model keeps the lines \<open>main\<close> itself prints on the standard output,
  one per call of \<open>print\<close>, and the exit status. The three symbols outside the code
  points below 256 that open some messages are left out of the lines.
\<close>

record cli_env =
  getenv_table_alt :: "string option"
  new_agent :: "string \<Rightarrow> py_exn + (string \<Rightarrow> py_exn + pydict)"
  repr_value :: "pyval \<Rightarrow> string"

definition usage_lines :: "string list" where
  \<open>usage_lines =
     [''Usage: python main_alt.py '<address to match>' [table_name]'',
      newline @ ''Example:'',
      ''  python main_alt.py '123 Main St, New York, NY 10001'' @ [CHR 0x27],
      ''  python main_alt.py '123 Main St, New York, NY 10001' 'public.addresses_backup''
        @ [CHR 0x27],
      newline @ ''Note: If no table_name is provided, uses GOLDEN_SOURCE_TABLE_ALT environment variable'',
      ''      or defaults to 'addresses_backup'' @ [CHR 0x27]]\<close>

text \<open>Lines 22 to 35: the address and the table name of the arguments (at least two).\<close>

definition parse_args :: "string list \<Rightarrow> string \<times> string option" where
  "parse_args argv =
     (if length argv \<ge> 3
      then (let potential_table = last argv
            in if py_in ''.'' potential_table
                  \<or> list_ex (\<lambda>keyword. py_in keyword (py_lower potential_table))
                       [''addresses'', ''table'', ''backup'', ''_alt'']
               then (py_join '' '' (butlast (tl argv)), Some potential_table)
               else (py_join '' '' (tl argv), None))
      else (argv ! 1, None))"

text \<open>Lines 38 to 46.\<close>

definition choose_table :: "string option \<Rightarrow> string option \<Rightarrow> string" where
  "choose_table table_name table_alt =
     (case table_name of
        Some t \<Rightarrow> if t \<noteq> [] then t
                  else (case table_alt of
                          Some a \<Rightarrow> if a \<noteq> [] then a else ''addresses_backup''
                        | None \<Rightarrow> ''addresses_backup'')
      | None \<Rightarrow> (case table_alt of
                   Some a \<Rightarrow> if a \<noteq> [] then a else ''addresses_backup''
                 | None \<Rightarrow> ''addresses_backup''))"

definition rule :: "char \<Rightarrow> string" where
  "rule c = replicate 60 c"

text \<open>Lines 73 to 92: the summary of a \<open>claude_response\<close> that is a dictionary.\<close>

definition report_response ::
  "(pyval \<Rightarrow> string) \<Rightarrow> pydict \<Rightarrow> pydict \<Rightarrow> string list \<times> py_exn option" where
  "report_response repr result response =
     (let confidence = py_get response ''confidence'' (PStr ''N/A'');
          business_rule_exception = py_get response ''business_rule_exception'' (PBool False);
          confidence_threshold = py_get result ''confidence_threshold'' (PFloat 90)
      in if py_truthy (py_get response ''match_found'' PNone)
         then (let lines1 =
                     [''Match Found!'', ''Confidence: '' @ py_str repr confidence @ ''%'']
                     @ (if py_truthy business_rule_exception
                        then [''BUSINESS RULE EXCEPTION: Confidence below threshold (''
                                @ py_str repr confidence_threshold @ ''%)'',
                              ''This match requires manual review.'']
                        else [])
                     @ [newline @ ''Matched Address:'']
               in case py_items (py_get response ''matched_address'' (PDict [])) of
                    Inl ex \<Rightarrow> (lines1, Some ex)
                  | Inr matched \<Rightarrow>
                      (lines1
                       @ map (\<lambda>(key, v). ''  '' @ key @ '': '' @ py_str repr v) matched
                       @ [newline @ ''Reasoning: ''
                            @ py_str repr (py_get response ''reasoning'' (PStr ''N/A''))],
                       None))
         else ([''No Match Found'']
               @ (if py_is_number confidence
                  then [''Confidence: '' @ py_str repr confidence @ ''%''] else [])
               @ [''Reasoning: '' @ py_str repr (py_get response ''reasoning'' (PStr ''N/A''))],
               None))"

text \<open>
  Lines 63 to 96, the \<open>try\<close> block after \<open>match_address\<close> has returned: the lines
  printed, and the exception that ended the block, if any.
\<close>

definition report :: "(pyval \<Rightarrow> string) \<Rightarrow> pydict \<Rightarrow> string list \<times> py_exn option" where
  \<open>report repr result =
     (let lines0 = [newline @ rule (CHR ''=''), ''MATCH RESULT'', rule (CHR ''='')]
      in case py_getitem result ''input_address'' of
           Inl ex \<Rightarrow> (lines0, Some ex)
         | Inr input_address \<Rightarrow>
             (let lines1 = lines0
                    @ [newline @ ''Input Address: '' @ py_str repr input_address]
                    @ (case map_of result ''candidates_searched'' of
                         Some n \<Rightarrow> [''Candidates Searched: '' @ py_str repr n]
                       | None \<Rightarrow> [])
                    @ [newline @ ''Claude's Analysis:'', rule (CHR ''-'')]
              in case py_getitem result ''claude_response'' of
                   Inl ex \<Rightarrow> (lines1, Some ex)
                 | Inr claude_response \<Rightarrow>
                     (case claude_response of
                        PDict response \<Rightarrow>
                          (case report_response repr result response of
                             (lines2, Some ex) \<Rightarrow> (lines1 @ lines2, Some ex)
                           | (lines2, None) \<Rightarrow>
                               (lines1 @ lines2 @ [newline @ rule (CHR ''='')], None))
                      | _ \<Rightarrow>
                          (case py_getitem result ''raw_response'' of
                             Inl ex \<Rightarrow> (lines1, Some ex)
                           | Inr raw_response \<Rightarrow>
                               (lines1 @ [py_str repr raw_response, newline @ rule (CHR ''='')],
                                None)))))\<close>

text \<open>
  The program: the lines printed and the exit status. An exception that \<open>AddressAgent()\<close>
  raises is not handled and ends the process with status 1; one raised inside the
  \<open>try\<close> block is reported and followed by \<open>sys.exit(1)\<close>.
\<close>

definition main_alt :: "cli_env \<Rightarrow> string list \<Rightarrow> string list \<times> int" where
  "main_alt c argv =
     (if length argv < 2 then (usage_lines, 1)
      else
        (let (input_address, table_arg) = parse_args argv;
             table_name = choose_table table_arg (getenv_table_alt c);
             banner = [rule (CHR ''=''),
                       ''OneTrueAddress Agent - Address Matching (Alternative Table)'',
                       rule (CHR ''=''),
                       ''Using Table: '' @ table_name,
                       '''']
         in case new_agent c table_name of
              Inl ex \<Rightarrow> (banner, 1)
            | Inr agent_match_address \<Rightarrow>
                (case agent_match_address input_address of
                   Inl ex \<Rightarrow> (banner @ [newline @ ''Error: '' @ exn_str ex], 1)
                 | Inr result \<Rightarrow>
                     (case report (repr_value c) result of
                        (printed, Some ex) \<Rightarrow>
                          (banner @ printed @ [newline @ ''Error: '' @ exn_str ex], 1)
                      | (printed, None) \<Rightarrow> (banner @ printed, 0)))))"

text \<open>The agent of \<open>main\<close>: \<open>match_address\<close> with the default threshold.\<close>

definition agent_match_address :: "env \<Rightarrow> config \<Rightarrow> string \<Rightarrow> py_exn + pydict" where
  "agent_match_address e cfg input_address =
     map_sum id result_dict (fst (match_address e cfg input_address None))"

section \<open>Example data\<close>

text \<open>
  Collaborators for the worked examples: a candidate with an address and a score, a
  retrieval that returns fixed lists, a decoder given by the table of the texts it
  decodes, a formatter of floats (rounding to the nearest, ties upward) and the text of
  the simple values.
\<close>

definition scored :: "string \<Rightarrow> real \<Rightarrow> address_record" where
  "scored a s =
     \<lparr>MasterAddress = Some a, similarity_score = Some s, source_type = None,
      source_table = None, ai_analysis = None, row_columns = []\<rparr>"

definition fixed_point :: "nat \<Rightarrow> real \<Rightarrow> string" where
  "fixed_point d x =
     (let n = \<lfloor>\<bar>x\<bar> * 10 ^ d + 1 / 2\<rfloor>;
          whole = str_nat (nat (n div 10 ^ d));
          frac = str_nat (nat (n mod 10 ^ d))
      in (if x < 0 then ''-'' else [])
         @ whole
         @ (if d = 0 then [] else ''.'' @ replicate (d - length frac) (CHR ''0'') @ frac))"

definition example_env ::
  "address_record list \<Rightarrow> address_record list \<Rightarrow> int \<Rightarrow> (py_exn + string)
     \<Rightarrow> (string \<times> pyval) list \<Rightarrow> env" where
  "example_env gs ints n answer decoded =
     \<lparr>fuzzy_match_addresses =
        (\<lambda>input_address threshold.
           Inr \<lparr>mr_golden_source_matches = gs, mr_internal_matches = ints,
                mr_total_matches = n\<rparr>),
      messages_create = (\<lambda>prompt. answer),
      json_loads = map_of decoded,
      format_float = fixed_point,
      int_max_str_digits = 4300\<rparr>"

definition example_repr :: "pyval \<Rightarrow> string" where
  "example_repr v =
     (case v of
        PInt i \<Rightarrow> str_int i
      | PBool b \<Rightarrow> (if b then ''True'' else ''False'')
      | PNone \<Rightarrow> ''None''
      | _ \<Rightarrow> ''...'')"

definition example_config :: config where
  "example_config = \<lparr>FUZZY_MATCH_THRESHOLD = 70, CONFIDENCE_THRESHOLD = 90\<rparr>"

section \<open>Properties of the street-address decomposition\<close>

lemmas str_defs = py_strip_def py_rstrip_def py_lstrip_def py_isspace_def re_digit_def
  py_split_def py_lower_def py_lower_char_def py_rstrip_chars_def upper_chars_def
  lower_chars_def py_split1_def py_isdigit_def py_isdigit_char_def

lemma split_ws_lstrip: "split_ws [] (dropWhile py_isspace s) = split_ws [] s"
  by (induction s) auto

lemma split_ws_snoc_space: "py_isspace c \<Longrightarrow> split_ws cur (s @ [c]) = split_ws cur s"
  by (induction s arbitrary: cur) auto

lemma split_ws_append_spaces: "list_all py_isspace w \<Longrightarrow> split_ws cur (s @ w) = split_ws cur s"
proof (induction w rule: rev_induct)
  case Nil
  then show ?case by simp
next
  case (snoc c w)
  then have "split_ws cur ((s @ w) @ [c]) = split_ws cur (s @ w)"
    by (intro split_ws_snoc_space) simp
  with snoc show ?case by simp
qed

lemma split_ws_rstrip: "split_ws cur (py_rstrip s) = split_ws cur s"
proof -
  have "s = py_rstrip s @ rev (takeWhile py_isspace (rev s))"
    unfolding py_rstrip_def by (metis rev_append rev_rev_ident takeWhile_dropWhile_id)
  moreover have "list_all py_isspace (rev (takeWhile py_isspace (rev s)))"
    by (simp add: list_all_iff) (meson set_takeWhileD)
  ultimately show ?thesis using split_ws_append_spaces by metis
qed

lemma py_split_strip: "py_split (py_strip s) = py_split s"
  by (simp add: py_split_def py_strip_def split_ws_rstrip py_lstrip_def split_ws_lstrip)

lemma split_ws_tokens:
  "list_all (\<lambda>c. \<not> py_isspace c) cur \<Longrightarrow> list_all token (split_ws cur s)"
  by (induction s arbitrary: cur) (auto simp: token_def)

lemma py_split_tokens: "list_all token (py_split s)"
  by (simp add: py_split_def split_ws_tokens)

lemma split_ws_word: "list_all (\<lambda>c. \<not> py_isspace c) t \<Longrightarrow> split_ws cur (t @ r) = split_ws (cur @ t) r"
  by (induction t arbitrary: cur) auto

lemma split_ws_join:
  "list_all token ts \<Longrightarrow> split_ws [] (py_join '' '' ts) = ts"
proof (induction ts)
  case Nil
  then show ?case by simp
next
  case (Cons x xs)
  then have x: "x \<noteq> []" "list_all (\<lambda>c. \<not> py_isspace c) x"
    by (simp_all add: token_def)
  show ?case
  proof (cases xs)
    case Nil
    then show ?thesis using split_ws_word[OF x(2), of "[]" "[]"] x(1) by simp
  next
    case (Cons y ys)
    have "split_ws [] (x @ '' '' @ py_join '' '' (y # ys)) = split_ws x ('' '' @ py_join '' '' (y # ys))"
      using split_ws_word[OF x(2), of "[]"] by simp
    also have "\<dots> = x # split_ws [] (py_join '' '' (y # ys))"
      using x(1) by (simp add: py_isspace_def)
    finally show ?thesis using Cons.IH Cons.prems Cons by simp
  qed
qed

lemma py_split_join: "list_all token ts \<Longrightarrow> py_split (py_join '' '' ts) = ts"
  by (simp add: py_split_def split_ws_join)

lemma core_split:
  assumes "1 < length (py_split full)"
    and "py_rstrip_chars ''.'' (py_lower (last (py_split full))) \<in> set street_types"
  shows "street_name_core_of full = py_join '' '' (butlast (py_split full))"
    and "py_split (street_name_core_of full) = butlast (py_split full)"
proof -
  show c: "street_name_core_of full = py_join '' '' (butlast (py_split full))"
    using assms by (simp add: street_name_core_of_def py_split_strip Let_def)
  have "list_all token (butlast (py_split full))"
    using py_split_tokens[of full] by (simp add: list_all_iff) (meson in_set_butlastD)
  then show "py_split (street_name_core_of full) = butlast (py_split full)"
    by (simp add: c py_split_join)
qed

lemma core_keep:
  "\<not> (1 < length (py_split full) \<and> py_rstrip_chars ''.'' (py_lower (last (py_split full))) \<in> set street_types)
   \<Longrightarrow> street_name_core_of full = full"
  by (auto simp add: street_name_core_of_def py_split_strip Let_def)

text \<open>
  Claim C8. Decomposing \<open>123 Oak Ln\<close> gives the street number \<open>123\<close> and the core
  street name \<open>Oak\<close>; decomposing \<open>456 Grand Concourse\<close> gives the core
  \<open>Grand Concourse\<close>. In general, when the street name has more than one token and its
  last token, lowercased and without trailing periods, is in the street-type vocabulary,
  the core is the other tokens joined by single spaces, so that exactly that one token is
  gone; when the street name is a single token, or its last token is no street type, the
  core is the street name as it is.
\<close>

theorem decompose_strips_one_street_type:
  "decompose ''123 Oak Ln'' =
     Some \<lparr>street_number = ''123'', street_name_full = ''Oak Ln'', street_name_core = ''Oak''\<rparr>
   \<and> decompose ''456 Grand Concourse'' =
     Some \<lparr>street_number = ''456'', street_name_full = ''Grand Concourse'',
            street_name_core = ''Grand Concourse''\<rparr>
   \<and> (\<forall>a d ts. decompose a = Some d \<and> ts = py_split (street_name_full d) \<longrightarrow>
         (if 1 < length ts \<and> py_rstrip_chars ''.'' (py_lower (last ts)) \<in> set street_types
          then street_name_core d = py_join '' '' (butlast ts)
               \<and> py_split (street_name_core d) = butlast ts
          else street_name_core d = street_name_full d)
         \<and> (length ts = 1 \<longrightarrow> street_name_core d = street_name_full d))"
proof (intro conjI allI impI)
  show "decompose ''123 Oak Ln'' =
     Some \<lparr>street_number = ''123'', street_name_full = ''Oak Ln'', street_name_core = ''Oak''\<rparr>"
    by (simp add: decompose_def split_street_number_def match_number_name_def
        street_name_core_of_def street_types_def str_defs)
  show "decompose ''456 Grand Concourse'' =
     Some \<lparr>street_number = ''456'', street_name_full = ''Grand Concourse'',
            street_name_core = ''Grand Concourse''\<rparr>"
    by (simp add: decompose_def split_street_number_def match_number_name_def
        street_name_core_of_def street_types_def str_defs)
next
  fix a d ts
  assume h: "decompose a = Some d \<and> ts = py_split (street_name_full d)"
  then have core: "street_name_core d = street_name_core_of (street_name_full d)"
    by (auto simp: decompose_def split: option.splits prod.splits)
  show "if 1 < length ts \<and> py_rstrip_chars ''.'' (py_lower (last ts)) \<in> set street_types
        then street_name_core d = py_join '' '' (butlast ts)
             \<and> py_split (street_name_core d) = butlast ts
        else street_name_core d = street_name_full d"
    using h core core_split[of "street_name_full d"] core_keep[of "street_name_full d"]
    by (simp split: if_splits)
  assume "length ts = 1"
  then show "street_name_core d = street_name_full d"
    using h core core_keep[of "street_name_full d"] by simp
qed

theorem decompose_strips_one_street_type_witness:
  "decompose ''12 Oak  Hill RD.'' =
     Some \<lparr>street_number = ''12'', street_name_full = ''Oak  Hill RD.'',
            street_name_core = ''Oak Hill''\<rparr>
   \<and> py_split ''Oak  Hill RD.'' = [''Oak'', ''Hill'', ''RD.'']
   \<and> py_rstrip_chars ''.'' (py_lower ''RD.'') \<in> set street_types
   \<and> py_split ''Oak Hill'' = [''Oak'', ''Hill'']"
proof -
  let ?d = "\<lparr>street_number = ''12'', street_name_full = ''Oak  Hill RD.'',
            street_name_core = ''Oak Hill''\<rparr>"
  have e: "decompose ''12 Oak  Hill RD.'' = Some ?d"
    by (simp add: decompose_def split_street_number_def match_number_name_def
        street_name_core_of_def street_types_def str_defs)
  have t: "py_split ''Oak  Hill RD.'' = [''Oak'', ''Hill'', ''RD.'']"
    by (simp add: str_defs)
  have v: "py_rstrip_chars ''.'' (py_lower ''RD.'') \<in> set street_types"
    by (simp add: street_types_def str_defs)
  from decompose_strips_one_street_type
  have "decompose ''12 Oak  Hill RD.'' = Some ?d
        \<and> [''Oak'', ''Hill'', ''RD.''] = py_split (street_name_full ?d) \<longrightarrow>
        (if 1 < length [''Oak'', ''Hill'', ''RD.'']
            \<and> py_rstrip_chars ''.'' (py_lower (last [''Oak'', ''Hill'', ''RD.''])) \<in> set street_types
         then street_name_core ?d = py_join '' '' (butlast [''Oak'', ''Hill'', ''RD.''])
              \<and> py_split (street_name_core ?d) = butlast [''Oak'', ''Hill'', ''RD.'']
         else street_name_core ?d = street_name_full ?d)
        \<and> (length [''Oak'', ''Hill'', ''RD.''] = 1 \<longrightarrow> street_name_core ?d = street_name_full ?d)"
    by blast
  with e t v have "py_split ''Oak Hill'' = [''Oak'', ''Hill'']"
    by simp
  with e t v show ?thesis by simp
qed

section \<open>The schema mapping on a table with a street and a state column\<close>

lemmas schema_defs = get_pinellas_column_mapping_def columns_lower_def address_patterns_def
  city_patterns_def state_patterns_def zip_patterns_def substring_test_def state_test_def

text \<open>
  Claim C2 says that columns with exactly one address-like, one city-like, one state-like
  and one zip-like name are bound correctly, in any order. On the columns \<open>Street\<close>,
  \<open>City\<close>, \<open>St\<close>, \<open>Zip\<close> the state field is bound to \<open>Street\<close>: no column is
  named \<open>state\<close>, and the second state pattern \<open>st\<close> is a substring of \<open>street\<close>,
  which comes first.
\<close>

theorem column_mapping_binds_state_to_street:
  "fst (get_pinellas_column_mapping [''Street'', ''City'', ''St'', ''Zip'']) =
     \<lparr>m_address = Some ''Street'', m_city = Some ''City'',
      m_state = Some ''Street'', m_zip = Some ''Zip''\<rparr>"
  by (simp add: schema_defs str_defs)

text \<open>With the state column declared first, the same four columns are bound as expected.\<close>

lemma column_mapping_depends_on_order:
  "fst (get_pinellas_column_mapping [''St'', ''City'', ''Street'', ''Zip'']) =
     \<lparr>m_address = Some ''Street'', m_city = Some ''City'',
      m_state = Some ''St'', m_zip = Some ''Zip''\<rparr>"
  by (simp add: schema_defs str_defs)

text \<open>
  What the loops do guarantee: when exactly one column passes a field's test for some
  pattern of the field, and no two columns agree up to case, the field is bound to that
  column. In the table above two columns pass the test of the state field.
\<close>

lemma py_setitem_new: "k \<notin> fst ` set d \<Longrightarrow> py_setitem k v d = d @ [(k, v)]"
  by (induction d) auto

lemma columns_lower_distinct_acc:
  "distinct (map py_lower cs) \<Longrightarrow> fst ` set acc \<inter> py_lower ` set cs = {} \<Longrightarrow>
   foldl (\<lambda>d col. py_setitem (py_lower col) col d) acc cs = acc @ map (\<lambda>c. (py_lower c, c)) cs"
proof (induction cs arbitrary: acc)
  case Nil
  then show ?case by simp
next
  case (Cons c cs)
  have new: "py_lower c \<notin> fst ` set acc"
    using Cons.prems(2) by auto
  have "fst ` set (acc @ [(py_lower c, c)]) \<inter> py_lower ` set cs = {}"
    using Cons.prems by auto
  with Cons.IH[of "acc @ [(py_lower c, c)]"] Cons.prems(1) new show ?case
    by (simp add: py_setitem_new)
qed

lemma columns_lower_distinct:
  "distinct (map py_lower columns) \<Longrightarrow> columns_lower columns = map (\<lambda>c. (py_lower c, c)) columns"
  using columns_lower_distinct_acc[of columns "[]"] by (simp add: columns_lower_def)

lemma scan_columns_none:
  "\<forall>x \<in> set items. \<not> test p (fst x) \<Longrightarrow> scan_columns test p items None = None"
  by (induction items) auto

lemma scan_columns_only:
  assumes "\<forall>x \<in> set items. test p (fst x) \<longrightarrow> snd x = ca"
    and "\<exists>x \<in> set items. test p (fst x)"
  shows "scan_columns test p items None = Some ca"
  using assms
proof (induction items)
  case Nil
  then show ?case by simp
next
  case (Cons x items)
  obtain cl' ca' where x: "x = (cl', ca')" by (cases x)
  show ?case
  proof (cases "test p cl'")
    case True
    then show ?thesis using Cons.prems(1) x by simp
  next
    case False
    then have "\<exists>y \<in> set items. test p (fst y)"
      using Cons.prems(2) x by auto
    then show ?thesis using Cons.IH Cons.prems(1) False x by simp
  qed
qed

lemma scan_patterns_only:
  assumes "\<forall>x \<in> set items. (\<exists>p \<in> set patterns. test p (fst x)) \<longrightarrow> snd x = ca"
    and "\<exists>x \<in> set items. \<exists>p \<in> set patterns. test p (fst x)"
    and "ca \<noteq> []"
  shows "scan_patterns test patterns items None = Some ca"
  using assms(1,2)
proof (induction patterns)
  case Nil
  then show ?case by auto
next
  case (Cons p ps)
  show ?case
  proof (cases "\<exists>x \<in> set items. test p (fst x)")
    case True
    have "\<forall>x \<in> set items. test p (fst x) \<longrightarrow> snd x = ca"
      using Cons.prems(1) by auto
    then have "scan_columns test p items None = Some ca"
      using True by (rule scan_columns_only)
    then show ?thesis using assms(3) by simp
  next
    case False
    then have none: "scan_columns test p items None = None"
      by (intro scan_columns_none) auto
    have "\<forall>x \<in> set items. (\<exists>p \<in> set ps. test p (fst x)) \<longrightarrow> snd x = ca"
      using Cons.prems(1) by auto
    moreover have "\<exists>x \<in> set items. \<exists>p \<in> set ps. test p (fst x)"
      using Cons.prems(2) False by auto
    ultimately show ?thesis using Cons.IH none by simp
  qed
qed

lemma field_bound_to_only_match:
  assumes "distinct (map py_lower columns)"
    and "c \<in> set columns" and "c \<noteq> []"
    and "\<exists>p \<in> set patterns. test p (py_lower c)"
    and "\<forall>c' \<in> set columns. (\<exists>p \<in> set patterns. test p (py_lower c')) \<longrightarrow> c' = c"
  shows "scan_patterns test patterns (columns_lower columns) None = Some c"
proof (rule scan_patterns_only)
  show "\<forall>x \<in> set (columns_lower columns). (\<exists>p \<in> set patterns. test p (fst x)) \<longrightarrow> snd x = c"
    using assms(5) by (auto simp: columns_lower_distinct[OF assms(1)])
  show "\<exists>x \<in> set (columns_lower columns). \<exists>p \<in> set patterns. test p (fst x)"
    using assms(2,4) by (auto simp: columns_lower_distinct[OF assms(1)])
  show "c \<noteq> []" by (rule assms(3))
qed

lemma state_bound_to_only_match:
  assumes "distinct (map py_lower columns)"
    and "c \<in> set columns" and "c \<noteq> []"
    and "\<exists>p \<in> set state_patterns. state_test p (py_lower c)"
    and "\<forall>c' \<in> set columns. (\<exists>p \<in> set state_patterns. state_test p (py_lower c')) \<longrightarrow> c' = c"
  shows "m_state (fst (get_pinellas_column_mapping columns)) = Some c"
  using field_bound_to_only_match[OF assms]
  by (simp add: get_pinellas_column_mapping_def Let_def)

lemma street_passes_state_test: "state_test ''st'' (py_lower ''Street'')"
  by (simp add: state_test_def str_defs)

section \<open>Properties of the exact-match check\<close>

lemma scan_internal_find:
  "scan_internal repr
     (normalised_field repr g ''address1'', normalised_field repr g ''Mailing City'',
      normalised_field repr g ''state'', normalised_field repr g ''zipcode'') cols rs =
   (case find (fields_equal repr g cols) rs of
      None \<Rightarrow> \<lparr>is_exact_match = False, matched_record = None\<rparr>
    | Some r \<Rightarrow> \<lparr>is_exact_match = True, matched_record = Some r\<rparr>)"
  by (induction rs) (simp_all add: fields_equal_def Let_def)

lemma find_None_iff_list_ex: "(find P xs = None) = (\<not> list_ex P xs)"
  by (induction xs) simp_all

text \<open>
  Claim C7. The check answers \<open>is_exact_match = True\<close> exactly when some internal
  candidate agrees with the golden record in all four normalised fields, the columns being
  the ones sniffed from the first candidate's keys, and \<open>matched_record\<close> is then the
  first such candidate; two empty fields agree. The golden record
  \<open>100 Main St, Tampa, FL 33602\<close> matches the internal record with the columns
  \<open>Street\<close>, \<open>City\<close>, \<open>St\<close>, \<open>Zip\<close> that differs in case and surrounding blanks.
\<close>

theorem check_exact_match_first_equal_candidate:
  "check_exact_match repr g [] = \<lparr>is_exact_match = False, matched_record = None\<rparr>
   \<and> check_exact_match repr g (sample # rest) =
       (case find (fields_equal repr g (sniff_columns sample)) (sample # rest) of
          None \<Rightarrow> \<lparr>is_exact_match = False, matched_record = None\<rparr>
        | Some r \<Rightarrow> \<lparr>is_exact_match = True, matched_record = Some r\<rparr>)
   \<and> (is_exact_match (check_exact_match repr g (sample # rest)) =
        list_ex (fields_equal repr g (sniff_columns sample)) (sample # rest))
   \<and> check_exact_match repr
        [(''address1'', PStr ''100 Main St''), (''Mailing City'', PStr ''Tampa''),
         (''state'', PStr ''FL''), (''zipcode'', PStr ''33602'')]
        [[(''Street'', PStr ''100 MAIN ST''), (''City'', PStr ''TAMPA''),
          (''St'', PStr ''fl''), (''Zip'', PStr '' 33602 '')]] =
       \<lparr>is_exact_match = True,
        matched_record = Some [(''Street'', PStr ''100 MAIN ST''), (''City'', PStr ''TAMPA''),
          (''St'', PStr ''fl''), (''Zip'', PStr '' 33602 '')]\<rparr>
   \<and> check_exact_match repr
        [(''address1'', PStr ''100 Main St''), (''state'', PStr ''FL'')]
        [[(''Street'', PStr ''100 Main St''), (''St'', PStr ''FL'')]] =
       \<lparr>is_exact_match = True,
        matched_record = Some [(''Street'', PStr ''100 Main St''), (''St'', PStr ''FL'')]\<rparr>
   \<and> check_exact_match repr [(''address1'', PStr ''100 Main St'')] [[(''Unit'', PStr ''7'')]] =
       \<lparr>is_exact_match = False, matched_record = None\<rparr>
   \<and> check_exact_match repr [(''address2'', PStr ''Apt 1'')] [[(''Unit'', PStr ''7'')]] =
       \<lparr>is_exact_match = True, matched_record = Some [(''Unit'', PStr ''7'')]\<rparr>"
proof (intro conjI)
  show "check_exact_match repr g [] = \<lparr>is_exact_match = False, matched_record = None\<rparr>"
    by (simp add: check_exact_match_def)
  show c: "check_exact_match repr g (sample # rest) =
       (case find (fields_equal repr g (sniff_columns sample)) (sample # rest) of
          None \<Rightarrow> \<lparr>is_exact_match = False, matched_record = None\<rparr>
        | Some r \<Rightarrow> \<lparr>is_exact_match = True, matched_record = Some r\<rparr>)"
    unfolding check_exact_match_def list.case by (rule scan_internal_find)
  show "is_exact_match (check_exact_match repr g (sample # rest)) =
        list_ex (fields_equal repr g (sniff_columns sample)) (sample # rest)"
    unfolding c
    using find_None_iff_list_ex[of "fields_equal repr g (sniff_columns sample)" "sample # rest"]
    by (cases "find (fields_equal repr g (sniff_columns sample)) (sample # rest)") auto
qed (simp_all add: check_exact_match_def sniff_columns_def sniff_key_def normalised_field_def
      internal_field_def py_get_def py_str_def str_defs)

section \<open>Properties of the review and of the agent\<close>

lemma set_sort_matches:
  "set (sort_matches gs ints) = set (refs_of GoldenSource gs) \<union> set (refs_of Internal ints)"
  by (simp add: sort_matches_def)

lemma sort_matches_Nil: "(sort_matches gs ints = []) = (gs = [] \<and> ints = [])"
proof -
  have "(sort_matches gs ints = []) = (set (sort_matches gs ints) = {})" by simp
  then show ?thesis unfolding set_sort_matches by (simp add: refs_of_def)
qed

lemma sort_matches_first_is_best:
  assumes "sort_matches gs ints = first_match # rest"
    and "r \<in> set (refs_of GoldenSource gs) \<union> set (refs_of Internal ints)"
  shows "score_of (deref gs ints r) \<le> score_of (deref gs ints first_match)"
proof -
  let ?k = "\<lambda>r. - score_of (deref gs ints r)"
  have "sorted (map ?k (sort_matches gs ints))"
    unfolding sort_matches_def by (rule sorted_sort_key)
  then have "\<forall>y \<in> set rest. ?k first_match \<le> ?k y"
    using assms(1) by simp
  moreover have "r \<in> set (first_match # rest)"
    using assms set_sort_matches[of gs ints] by simp
  ultimately show ?thesis by auto
qed

lemma index_int_in_set: "index_int xs n = Inr x \<Longrightarrow> x \<in> set xs"
  by (auto simp: index_int_def Let_def split: if_splits)

lemma py_index_in_set: "py_index xs i = Inr x \<Longrightarrow> x \<in> set xs"
  by (cases i) (auto simp: py_index_def dest: index_int_in_set)

lemma recommended_match_is_candidate:
  assumes "recommended_match d (first_match # rest) g10 i10 = Inr ob"
  shows "ob = obj_of first_match \<or> (\<exists>r \<in> set g10 \<union> set i10. ob = obj_of r)"
  using assms
  by (auto simp: recommended_match_def Let_def map_sum_def
      split: sum.splits if_splits dest: py_index_in_set)

lemma fuzzy_fallback_Cons:
  "fuzzy_fallback gs ints (first_match # rest) msg =
     Inr \<lparr>cr_match_found = PBool True, cr_best_match = obj_of first_match,
          cr_confidence = score_val (deref gs ints first_match), cr_reasoning = PStr msg,
          cr_concerns = PNone, cr_fuzzy_score = score_val (deref gs ints first_match),
          cr_match_analyses = []\<rparr>"
  by (simp add: fuzzy_fallback_def)

lemma review_of_dict_best_match:
  assumes "review_of_dict e gs ints d all_matches g10 i10 = Inr r"
  shows "recommended_match d all_matches g10 i10 = Inr (cr_best_match r)"
  using assms by (auto simp: review_of_dict_def split: sum.splits)

lemma review_try_best_match:
  assumes "review_try e gs ints prompt (first_match # rest) g10 i10 = Inr r"
  shows "cr_best_match r = obj_of first_match \<or> (\<exists>c \<in> set g10 \<union> set i10. cr_best_match r = obj_of c)"
proof (cases "messages_create e prompt")
  case (Inl ex)
  with assms show ?thesis by (simp add: review_try_def)
next
  case (Inr response_text)
  show ?thesis
  proof (cases "parse_claude_response (json_loads e) response_text")
    case (PDict d)
    with assms Inr have "review_of_dict e gs ints d (first_match # rest) g10 i10 = Inr r"
      by (simp add: review_try_def)
    then show ?thesis
      using review_of_dict_best_match recommended_match_is_candidate by blast
  qed (use assms Inr in \<open>auto simp: review_try_def fuzzy_fallback_Cons\<close>)
qed

lemma review_Cons:
  "fst (review_fuzzy_matches_with_claude e gs ints a (first_match # rest) g10 i10) =
     (case review_try e gs ints
             (build_prompt e a (map (deref gs ints) g10) (map (deref gs ints) i10))
             (first_match # rest) g10 i10 of
        Inr r \<Rightarrow> Inr r
      | Inl ex \<Rightarrow>
          Inr \<lparr>cr_match_found = PBool True, cr_best_match = obj_of first_match,
               cr_confidence = score_val (deref gs ints first_match),
               cr_reasoning = PStr (''Using fuzzy match result (Claude review failed: '' @ exn_str ex @ '')''),
               cr_concerns = PNone, cr_fuzzy_score = score_val (deref gs ints first_match),
               cr_match_analyses = []\<rparr>)"
  by (simp add: review_fuzzy_matches_with_claude_def Let_def fuzzy_fallback_Cons split: sum.splits)

lemma review_best_match:
  assumes "fst (review_fuzzy_matches_with_claude e gs ints a (first_match # rest) g10 i10) = Inr r"
  shows "cr_best_match r = obj_of first_match \<or> (\<exists>c \<in> set g10 \<union> set i10. cr_best_match r = obj_of c)"
  using assms unfolding review_Cons
  by (auto split: sum.splits dest: review_try_best_match)


text \<open>
  Claim C9. When the candidate retrieval reports \<open>total_matches = 0\<close>,
  \<open>match_address\<close> returns the result with \<open>match_found = False\<close>, the fixed
  reasoning and empty candidate lists, and no prompt has been handed to the client.
\<close>

theorem no_candidates_no_adjudication:
  assumes "fuzzy_match_addresses e input_address threshold = Inr match_results"
    and "mr_total_matches match_results = 0"
  shows "match_address e cfg input_address threshold = (Inr (no_match_result input_address), [])
    \<and> r_match_found (no_match_result input_address) = False
    \<and> r_golden_source_matches (no_match_result input_address) = []
    \<and> r_internal_matches (no_match_result input_address) = []
    \<and> r_reasoning (no_match_result input_address) =
        PStr ''No addresses found matching the search criteria with sufficient similarity in either table.''"
  using assms by (simp add: match_address_def no_match_result_def)

text \<open>
  Whatever list of candidates the review is given, if it is not empty the review returns,
  and an exception in the \<open>try\<close> block gives the fallback built from the head of the
  list, with the text of the exception in the reasoning.
\<close>

lemma review_falls_back_to_head:
  assumes "all_matches = first_match # rest"
  shows "(\<exists>r. fst (review_fuzzy_matches_with_claude e gs ints input_address all_matches g10 i10) = Inr r)
    \<and> (\<forall>ex. review_try e gs ints
               (build_prompt e input_address (map (deref gs ints) g10) (map (deref gs ints) i10))
               all_matches g10 i10 = Inl ex \<longrightarrow>
          fst (review_fuzzy_matches_with_claude e gs ints input_address all_matches g10 i10) =
            Inr \<lparr>cr_match_found = PBool True, cr_best_match = obj_of first_match,
                 cr_confidence = score_val (deref gs ints first_match),
                 cr_reasoning = PStr (''Using fuzzy match result (Claude review failed: ''
                                       @ exn_str ex @ '')''),
                 cr_concerns = PNone, cr_fuzzy_score = score_val (deref gs ints first_match),
                 cr_match_analyses = []\<rparr>)
    \<and> (\<forall>ex. messages_create e
               (build_prompt e input_address (map (deref gs ints) g10) (map (deref gs ints) i10))
               = Inl ex \<longrightarrow>
          review_try e gs ints
               (build_prompt e input_address (map (deref gs ints) g10) (map (deref gs ints) i10))
               all_matches g10 i10 = Inl ex)"
  unfolding assms review_Cons
  by (auto simp: review_try_def split: sum.splits)

text \<open>
  Claim C5. Let there be at least one candidate, and let the review be called, as
  \<open>match_address\<close> calls it, on the first ten of the merged ranking
  (\<open>sort_matches\<close>). Then the review returns a result and raises nothing; whatever
  exception ends the \<open>try\<close> block (in particular one the client raises when the
  request is sent or the answer awaited), the result is the fallback whose best match is
  the first candidate of the ranking, whose confidence is that candidate's score and
  whose reasoning holds the text of the exception; and no candidate of either source has
  a higher score than that first candidate.
\<close>

theorem review_failure_falls_back:
  assumes "sort_matches gs ints = first_match # rest"
  shows "(\<exists>r. fst (review_fuzzy_matches_with_claude e gs ints input_address
                  (take 10 (sort_matches gs ints)) g10 i10) = Inr r)
    \<and> (\<forall>ex. review_try e gs ints
               (build_prompt e input_address (map (deref gs ints) g10) (map (deref gs ints) i10))
               (take 10 (sort_matches gs ints)) g10 i10 = Inl ex \<longrightarrow>
          fst (review_fuzzy_matches_with_claude e gs ints input_address
                 (take 10 (sort_matches gs ints)) g10 i10) =
            Inr \<lparr>cr_match_found = PBool True, cr_best_match = obj_of first_match,
                 cr_confidence = score_val (deref gs ints first_match),
                 cr_reasoning = PStr (''Using fuzzy match result (Claude review failed: ''
                                       @ exn_str ex @ '')''),
                 cr_concerns = PNone, cr_fuzzy_score = score_val (deref gs ints first_match),
                 cr_match_analyses = []\<rparr>)
    \<and> (\<forall>ex. messages_create e
               (build_prompt e input_address (map (deref gs ints) g10) (map (deref gs ints) i10))
               = Inl ex \<longrightarrow>
          review_try e gs ints
               (build_prompt e input_address (map (deref gs ints) g10) (map (deref gs ints) i10))
               (take 10 (sort_matches gs ints)) g10 i10 = Inl ex)
    \<and> list_all (\<lambda>c. score_of (deref gs ints c) \<le> score_of (deref gs ints first_match))
          (refs_of GoldenSource gs @ refs_of Internal ints)"
proof -
  have t: "take 10 (sort_matches gs ints) = first_match # take 9 rest"
    using assms by simp
  have best: "list_all (\<lambda>c. score_of (deref gs ints c) \<le> score_of (deref gs ints first_match))
               (refs_of GoldenSource gs @ refs_of Internal ints)"
    using sort_matches_first_is_best[OF assms] by (simp add: list_all_iff)
  show ?thesis
    using review_falls_back_to_head[OF t, of e gs ints input_address g10 i10] best
    by blast
qed





lemma length_attach_analyses: "length (attach_analyses p an ms) = length ms"
  by (simp add: attach_analyses_def)

lemma refs_of_valid: "(s', i) \<in> set (refs_of s xs) \<Longrightarrow> s' = s \<and> i < length xs"
  by (auto simp: refs_of_def)

lemma match_address_matched:
  assumes "match_address e cfg a t = (Inr r, sent)" and "r_match_found r"
  shows "\<exists>mr first_match rest cr bm bs reas.
    fuzzy_match_addresses e a t = Inr mr
    \<and> sort_matches (mr_golden_source_matches mr) (mr_internal_matches mr) = first_match # rest
    \<and> review_fuzzy_matches_with_claude e (mr_golden_source_matches mr) (mr_internal_matches mr) a
         (take 10 (first_match # rest))
         (take 10 (refs_of GoldenSource (mr_golden_source_matches mr)))
         (take 10 (refs_of Internal (mr_internal_matches mr))) = (Inr cr, sent)
    \<and> choose_best (mr_golden_source_matches mr) (mr_internal_matches mr) (first_match # rest) cr
         = Inr (bm, bs, reas)
    \<and> py_format_f bs = Inr ()
    \<and> r_best_match r = Some bm \<and> r_matched_address r = Some bm
    \<and> r_confidence r = Some bs \<and> r_similarity_score r = Some bs
    \<and> r_golden_source_matches r =
         attach_analyses ''gs_'' (cr_match_analyses cr) (mr_golden_source_matches mr)
    \<and> r_internal_matches r =
         attach_analyses ''int_'' (cr_match_analyses cr) (mr_internal_matches mr)
    \<and> r_business_rule_exception r = Some (py_num bs < FUZZY_MATCH_THRESHOLD cfg)
    \<and> r_confidence_threshold r = Some (FUZZY_MATCH_THRESHOLD cfg)"
proof -
  from assms obtain mr where mr: "fuzzy_match_addresses e a t = Inr mr"
    by (auto simp: match_address_def split: sum.splits)
  have nz: "mr_total_matches mr \<noteq> 0"
    using assms mr by (auto simp: match_address_def no_match_result_def)
  let ?gs = "mr_golden_source_matches mr" and ?ints = "mr_internal_matches mr"
  obtain reviewed sent' where rv: "review_fuzzy_matches_with_claude e ?gs ?ints a
       (take 10 (sort_matches ?gs ?ints)) (take 10 (refs_of GoldenSource ?gs))
       (take 10 (refs_of Internal ?ints)) = (reviewed, sent')"
    by (cases "review_fuzzy_matches_with_claude e ?gs ?ints a
       (take 10 (sort_matches ?gs ?ints)) (take 10 (refs_of GoldenSource ?gs))
       (take 10 (refs_of Internal ?ints))") auto
  from assms(1) mr nz rv obtain cr where cr: "reviewed = Inr cr" and s: "sent' = sent"
    by (auto simp: match_address_def Let_def split: sum.splits)
  from assms(1) mr nz rv cr obtain bm bs reas where
    cb: "choose_best ?gs ?ints (sort_matches ?gs ?ints) cr = Inr (bm, bs, reas)"
    by (auto simp: match_address_def Let_def split: sum.splits)
  then obtain first_match rest where sm: "sort_matches ?gs ?ints = first_match # rest"
    by (cases "sort_matches ?gs ?ints") (auto simp: choose_best_def)
  from assms(1) mr nz rv cr cb have fm: "py_format_f bs = Inr ()"
    by (auto simp: match_address_def Let_def split: sum.splits)
  from assms(1) mr nz rv cr cb fm have
    "r = \<lparr>r_input_address = a, r_match_found = True, r_best_match = Some bm,
          r_golden_source_matches = attach_analyses ''gs_'' (cr_match_analyses cr) ?gs,
          r_internal_matches = attach_analyses ''int_'' (cr_match_analyses cr) ?ints,
          r_has_golden_source = (length ?gs > 0), r_has_internal = (length ?ints > 0),
          r_similarity_score = Some bs, r_confidence = Some bs, r_reasoning = reas,
          r_claude_review = Some cr,
          r_business_rule_exception = Some (py_num bs < FUZZY_MATCH_THRESHOLD cfg),
          r_confidence_threshold = Some (FUZZY_MATCH_THRESHOLD cfg),
          r_candidates_searched = mr_total_matches mr,
          r_search_method = ''fuzzy_match_with_ai'', r_matched_address = Some bm\<rparr>"
    by (simp add: match_address_def Let_def)
  then have r: "r_best_match r = Some bm" "r_matched_address r = Some bm"
    "r_confidence r = Some bs" "r_similarity_score r = Some bs"
    "r_golden_source_matches r = attach_analyses ''gs_'' (cr_match_analyses cr) ?gs"
    "r_internal_matches r = attach_analyses ''int_'' (cr_match_analyses cr) ?ints"
    "r_business_rule_exception r = Some (py_num bs < FUZZY_MATCH_THRESHOLD cfg)"
    "r_confidence_threshold r = Some (FUZZY_MATCH_THRESHOLD cfg)"
    by simp_all
  have cb': "choose_best ?gs ?ints (first_match # rest) cr = Inr (bm, bs, reas)"
    using cb sm by simp
  have rv': "review_fuzzy_matches_with_claude e ?gs ?ints a (take 10 (first_match # rest))
       (take 10 (refs_of GoldenSource ?gs)) (take 10 (refs_of Internal ?ints)) = (Inr cr, sent)"
    using rv cr s sm by simp
  show ?thesis
    using mr sm rv' cb' fm r by blast
qed


text \<open>
  Claim C10. In every result that \<open>match_address\<close> returns with
  \<open>match_found = True\<close>, whatever the client answers and the decoder makes of it, the
  best match is a reference to a record of the returned golden-source list or of the
  returned internal list, never the empty dictionary the review can create.
\<close>

theorem best_match_is_returned_candidate:
  assumes "match_address e cfg input_address threshold = (Inr r, sent)"
    and "r_match_found r"
  shows "\<exists>s i. r_best_match r = Some (Candidate s i)
           \<and> r_matched_address r = Some (Candidate s i)
           \<and> i < length (case s of GoldenSource \<Rightarrow> r_golden_source_matches r
                                   | Internal \<Rightarrow> r_internal_matches r)"
  using match_address_matched[OF assms]
proof (elim exE conjE)
  fix mr first_match rest cr bm bs reas
  let ?gs = "mr_golden_source_matches mr" and ?ints = "mr_internal_matches mr"
  let ?valid = "set (refs_of GoldenSource ?gs) \<union> set (refs_of Internal ?ints)"
  assume sm: "sort_matches ?gs ?ints = first_match # rest"
    and rv: "review_fuzzy_matches_with_claude e ?gs ?ints input_address
       (take 10 (first_match # rest)) (take 10 (refs_of GoldenSource ?gs))
       (take 10 (refs_of Internal ?ints)) = (Inr cr, sent)"
    and cb: "choose_best ?gs ?ints (first_match # rest) cr = Inr (bm, bs, reas)"
    and r: "r_best_match r = Some bm" "r_matched_address r = Some bm"
      "r_golden_source_matches r = attach_analyses ''gs_'' (cr_match_analyses cr) ?gs"
      "r_internal_matches r = attach_analyses ''int_'' (cr_match_analyses cr) ?ints"
  have first: "first_match \<in> ?valid"
    using set_sort_matches[of ?gs ?ints] sm by auto
  have "fst (review_fuzzy_matches_with_claude e ?gs ?ints input_address (first_match # take 9 rest)
       (take 10 (refs_of GoldenSource ?gs)) (take 10 (refs_of Internal ?ints))) = Inr cr"
    using rv by simp
  then have "cr_best_match cr = obj_of first_match
      \<or> (\<exists>c \<in> set (take 10 (refs_of GoldenSource ?gs)) \<union> set (take 10 (refs_of Internal ?ints)).
            cr_best_match cr = obj_of c)"
    by (rule review_best_match)
  then have "\<exists>c \<in> ?valid. cr_best_match cr = obj_of c"
    using first by (auto dest: in_set_takeD)
  moreover have "bm = cr_best_match cr \<or> bm = obj_of first_match"
    using cb by (auto simp: choose_best_def split: if_splits)
  ultimately obtain c where c: "c \<in> ?valid" "bm = obj_of c"
    using first by blast
  obtain s i where si: "c = (s, i)" by (cases c)
  have "i < length (case s of GoldenSource \<Rightarrow> ?gs | Internal \<Rightarrow> ?ints)"
    using c(1) si by (auto dest: refs_of_valid)
  then show ?thesis
    using c(2) si r by (cases s) (simp_all add: obj_of_def length_attach_analyses)
qed

text \<open>
  Claim C6, as amended. In every result returned with \<open>match_found = True\<close>, the
  flag \<open>business_rule_exception\<close> is true exactly when the reported confidence is
  strictly below \<open>FUZZY_MATCH_THRESHOLD\<close>, the value the result reports as
  \<open>confidence_threshold\<close>; and the flag is advisory: under any other configuration the
  same call returns the same result, but for these two entries.
\<close>

theorem exception_flag_follows_fuzzy_threshold:
  assumes "match_address e cfg input_address threshold = (Inr r, sent)"
    and "r_match_found r"
  shows "\<exists>c. r_confidence r = Some c
           \<and> r_business_rule_exception r = Some (py_num c < FUZZY_MATCH_THRESHOLD cfg)
           \<and> r_confidence_threshold r = Some (FUZZY_MATCH_THRESHOLD cfg)
           \<and> (\<forall>cfg'. match_address e cfg' input_address threshold =
                  (Inr (r\<lparr>r_business_rule_exception := Some (py_num c < FUZZY_MATCH_THRESHOLD cfg'),
                          r_confidence_threshold := Some (FUZZY_MATCH_THRESHOLD cfg')\<rparr>), sent))"
proof -
  from assms obtain mr where mr: "fuzzy_match_addresses e input_address threshold = Inr mr"
    by (auto simp: match_address_def split: sum.splits)
  have nz: "mr_total_matches mr \<noteq> 0"
    using assms mr by (auto simp: match_address_def no_match_result_def)
  show ?thesis
    using assms(1) mr nz
    by (auto simp: match_address_def Let_def split: sum.splits prod.splits)
qed

text \<open>
  A response that no tier decodes is a dictionary for the review: the verdict's defaults
  apply, which name the first golden-source candidate.
\<close>

lemma unparsed_response_is_read_as_verdict:
  assumes "messages_create e
             (build_prompt e a (map (deref gs ints) (g # g10)) (map (deref gs ints) i10))
           = Inr response_text"
    and "parse_claude_response (json_loads e) response_text = raw_text_result response_text"
  shows "fst (review_fuzzy_matches_with_claude e gs ints a all_matches (g # g10) i10) =
     Inr \<lparr>cr_match_found = PBool True, cr_best_match = obj_of g,
          cr_confidence = top_score gs ints all_matches,
          cr_reasoning = PStr ''Claude reviewed the matches'',
          cr_concerns = PNone, cr_fuzzy_score = top_score gs ints all_matches,
          cr_match_analyses = []\<rparr>"
  using assms
  by (simp add: review_fuzzy_matches_with_claude_def review_try_def raw_text_result_def
      review_of_dict_def recommended_match_def source_analyses_def Let_def py_get_def
      py_minus_one_def index_in_range_def py_num_def py_index_def index_int_def py_len_def
      py_items_def)

text \<open>The conversions on the texts and numbers where Python refuses.\<close>

lemma py_int_examples:
  "py_int 4300 '' 1_0 '' = Some 10"
  "py_int 4300 ''-7'' = Some (- 7)"
  "py_int 4300 ([CHR 0xA0] @ ''12'') = Some 12"
  "py_int 4300 ([CHR 0x1F] @ ''1'') = None"
  "py_int 4300 ''1__0'' = None"
  "py_int 4300 ''- 1'' = None"
  by (simp_all add: py_int_def int_strip_def int_isspace_def digit_chars_def too_many_digits_def)

lemma py_format_f_examples:
  "py_format_f (PInt (10 ^ 309)) = Inl (OverflowError ''int too large to convert to float'')"
  "py_format_f (PInt (2 ^ 1024 - 2 ^ 970 - 1)) = Inr ()"
  "py_format_f (PBool True) = Inr ()"
  "py_format_f PNone = Inl (TypeError ''unsupported format string passed to __format__'')"
  by (simp_all add: py_format_f_def float_overflow_def)

section \<open>The agent on example data\<close>

lemmas value_defs = score_of_def score_val_def deref_def refs_of_def obj_of_def py_get_def
  py_truthy_def py_num_def py_format_f_def py_minus_one_def py_index_def index_int_def
  index_in_range_def py_len_def py_items_def top_score_def

lemma scored_simps:
  "similarity_score (scored a s) = Some s"
  "MasterAddress (scored a s) = Some a"
  "ai_analysis (scored a s) = None"
  by (simp_all add: scored_def)

lemma example_env_simps:
  "fuzzy_match_addresses (example_env gs ints n answer decoded) a t =
     Inr \<lparr>mr_golden_source_matches = gs, mr_internal_matches = ints, mr_total_matches = n\<rparr>"
  "messages_create (example_env gs ints n answer decoded) p = answer"
  "json_loads (example_env gs ints n answer decoded) = map_of decoded"
  by (simp_all add: example_env_def)

lemma ex_sort: "sort_matches [scored ''12 Oak Ln'' 60] [scored ''12 Oak Lane'' 95] = [(Internal, 0), (GoldenSource, 0)]"
  by (simp add: sort_matches_def value_defs scored_simps)

lemma ex_parse: "parse_claude_response (\<lambda>x. None) ''I could not decide.'' = raw_text_result ''I could not decide.''"
  by (simp add: parse_claude_response_def match_block_at_def str_defs)

lemma ex_review:
  "fst (review_fuzzy_matches_with_claude
          (example_env [scored ''12 Oak Ln'' 60] [scored ''12 Oak Lane'' 95] 2
             (Inr ''I could not decide.'') [])
          [scored ''12 Oak Ln'' 60] [scored ''12 Oak Lane'' 95] ''12 Oak Lane''
          [(Internal, 0), (GoldenSource, 0)] [(GoldenSource, 0)] [(Internal, 0)]) =
   Inr \<lparr>cr_match_found = PBool True, cr_best_match = Candidate GoldenSource 0,
        cr_confidence = PFloat 95, cr_reasoning = PStr ''Claude reviewed the matches'',
        cr_concerns = PNone, cr_fuzzy_score = PFloat 95, cr_match_analyses = []\<rparr>"
  by (simp add: review_fuzzy_matches_with_claude_def review_try_def example_env_simps ex_parse
      raw_text_result_def review_of_dict_def recommended_match_def source_analyses_def
      Let_def value_defs scored_simps)

text \<open>
  Claim C1 says that a response from which no tier recovers JSON is handled like an
  unavailable review: the best match is the top candidate of the merged ranking and the
  confidence is that candidate's score. The value \<open>_parse_claude_response\<close> returns
  then is a dictionary, so the review reads it as a verdict with every key absent. With
  the golden-source candidate scored 60 and the internal candidate scored 95, the
  response \<open>I could not decide.\<close> gives the golden-source candidate as best match,
  with confidence 95.
\<close>

theorem unparsed_response_keeps_first_golden_candidate:
  "parse_claude_response (map_of []) ''I could not decide.'' = raw_text_result ''I could not decide.''
   \<and> sort_matches [scored ''12 Oak Ln'' 60] [scored ''12 Oak Lane'' 95] = [(Internal, 0), (GoldenSource, 0)]
   \<and> (case fst (match_address
          (example_env [scored ''12 Oak Ln'' 60] [scored ''12 Oak Lane'' 95] 2
             (Inr ''I could not decide.'') [])
          example_config ''12 Oak Lane'' None) of
        Inl ex \<Rightarrow> False
      | Inr r \<Rightarrow> r_match_found r
          \<and> r_best_match r = Some (Candidate GoldenSource 0)
          \<and> r_confidence r = Some (PFloat 95)
          \<and> r_golden_source_matches r = [scored ''12 Oak Ln'' 60]
          \<and> r_internal_matches r = [scored ''12 Oak Lane'' 95])"
proof -
  let ?e = "example_env [scored ''12 Oak Ln'' 60] [scored ''12 Oak Lane'' 95] 2
             (Inr ''I could not decide.'') []"
  obtain reviewed sent where rv: "review_fuzzy_matches_with_claude ?e
          [scored ''12 Oak Ln'' 60] [scored ''12 Oak Lane'' 95] ''12 Oak Lane''
          [(Internal, 0), (GoldenSource, 0)] [(GoldenSource, 0)] [(Internal, 0)] = (reviewed, sent)"
    by (cases "review_fuzzy_matches_with_claude ?e
          [scored ''12 Oak Ln'' 60] [scored ''12 Oak Lane'' 95] ''12 Oak Lane''
          [(Internal, 0), (GoldenSource, 0)] [(GoldenSource, 0)] [(Internal, 0)]") auto
  with ex_review have reviewed: "reviewed = Inr \<lparr>cr_match_found = PBool True, cr_best_match = Candidate GoldenSource 0,
        cr_confidence = PFloat 95, cr_reasoning = PStr ''Claude reviewed the matches'',
        cr_concerns = PNone, cr_fuzzy_score = PFloat 95, cr_match_analyses = []\<rparr>"
    by simp
  show ?thesis
    using ex_parse
    by (simp add: match_address_def example_env_simps ex_sort refs_of_def rv reviewed
        choose_best_def attach_analyses_def py_truthy_def py_format_f_def Let_def
        enumerate_eq_zip)
qed


lemma match_address_returns:
  assumes "fuzzy_match_addresses e a t = Inr mr"
    and "mr_total_matches mr \<noteq> 0"
    and "sort_matches (mr_golden_source_matches mr) (mr_internal_matches mr) = first_match # rest"
    and "fst (review_fuzzy_matches_with_claude e (mr_golden_source_matches mr) (mr_internal_matches mr) a
         (take 10 (first_match # rest))
         (take 10 (refs_of GoldenSource (mr_golden_source_matches mr)))
         (take 10 (refs_of Internal (mr_internal_matches mr)))) = Inr cr"
    and "choose_best (mr_golden_source_matches mr) (mr_internal_matches mr) (first_match # rest) cr
         = Inr (bm, bs, reas)"
    and "py_format_f bs = Inr ()"
  shows "fst (match_address e cfg a t) =
     Inr \<lparr>r_input_address = a, r_match_found = True, r_best_match = Some bm,
          r_golden_source_matches =
            attach_analyses ''gs_'' (cr_match_analyses cr) (mr_golden_source_matches mr),
          r_internal_matches =
            attach_analyses ''int_'' (cr_match_analyses cr) (mr_internal_matches mr),
          r_has_golden_source = (length (mr_golden_source_matches mr) > 0),
          r_has_internal = (length (mr_internal_matches mr) > 0),
          r_similarity_score = Some bs, r_confidence = Some bs, r_reasoning = reas,
          r_claude_review = Some cr,
          r_business_rule_exception = Some (py_num bs < FUZZY_MATCH_THRESHOLD cfg),
          r_confidence_threshold = Some (FUZZY_MATCH_THRESHOLD cfg),
          r_candidates_searched = mr_total_matches mr,
          r_search_method = ''fuzzy_match_with_ai'', r_matched_address = Some bm\<rparr>"
proof -
  obtain reviewed sent where rv: "review_fuzzy_matches_with_claude e (mr_golden_source_matches mr)
         (mr_internal_matches mr) a (take 10 (first_match # rest))
         (take 10 (refs_of GoldenSource (mr_golden_source_matches mr)))
         (take 10 (refs_of Internal (mr_internal_matches mr))) = (reviewed, sent)"
    by (cases "review_fuzzy_matches_with_claude e (mr_golden_source_matches mr)
         (mr_internal_matches mr) a (take 10 (first_match # rest))
         (take 10 (refs_of GoldenSource (mr_golden_source_matches mr)))
         (take 10 (refs_of Internal (mr_internal_matches mr)))") auto
  with assms(4) have "reviewed = Inr cr" by simp
  with rv show ?thesis
    using assms(1,2,3,5,6) by (simp add: match_address_def Let_def)
qed

theorem no_candidates_no_adjudication_witness:
  "match_address (example_env [scored ''12 Oak Ln'' 88] [] 0 (Inr ''{}'') []) example_config
      ''12 Oak Lane'' None = (Inr (no_match_result ''12 Oak Lane''), [])
   \<and> r_match_found (no_match_result ''12 Oak Lane'') = False
   \<and> r_golden_source_matches (no_match_result ''12 Oak Lane'') = []
   \<and> r_internal_matches (no_match_result ''12 Oak Lane'') = []"
  using no_candidates_no_adjudication[of "example_env [scored ''12 Oak Ln'' 88] [] 0 (Inr ''{}'') []"
      "''12 Oak Lane''" None
      "\<lparr>mr_golden_source_matches = [scored ''12 Oak Ln'' 88], mr_internal_matches = [],
        mr_total_matches = 0\<rparr>" example_config]
  by (simp add: example_env_simps)

theorem review_failure_falls_back_witness:
  "sort_matches [scored ''12 Oak Ln'' 60] [scored ''12 Oak Lane'' 95] = [(Internal, 0), (GoldenSource, 0)]
   \<and> fst (review_fuzzy_matches_with_claude
          (example_env [scored ''12 Oak Ln'' 60] [scored ''12 Oak Lane'' 95] 2
             (Inl (ExternalError ''Connection error.'')) [])
          [scored ''12 Oak Ln'' 60] [scored ''12 Oak Lane'' 95] ''12 Oak Lane''
          (take 10 (sort_matches [scored ''12 Oak Ln'' 60] [scored ''12 Oak Lane'' 95]))
          [(GoldenSource, 0)] [(Internal, 0)]) =
      Inr \<lparr>cr_match_found = PBool True, cr_best_match = Candidate Internal 0,
           cr_confidence = PFloat 95,
           cr_reasoning = PStr ''Using fuzzy match result (Claude review failed: Connection error.)'',
           cr_concerns = PNone, cr_fuzzy_score = PFloat 95, cr_match_analyses = []\<rparr>
   \<and> score_of (scored ''12 Oak Ln'' 60) \<le> score_of (scored ''12 Oak Lane'' 95)"
  using review_failure_falls_back[OF ex_sort,
      of "example_env [scored ''12 Oak Ln'' 60] [scored ''12 Oak Lane'' 95] 2
             (Inl (ExternalError ''Connection error.'')) []"
      "''12 Oak Lane''" "[(GoldenSource, 0)]" "[(Internal, 0)]"]
  by (simp add: ex_sort example_env_simps value_defs scored_simps)





lemma ex1_sort: "sort_matches [scored ''12 Oak Ln'' 80] [] = [(GoldenSource, 0)]"
  by (simp add: sort_matches_def value_defs scored_simps)

lemma ex1_review:
  "fst (review_fuzzy_matches_with_claude
          (example_env [scored ''12 Oak Ln'' 80] [] 1 (Inl (ExternalError ''Request timed out.'')) [])
          [scored ''12 Oak Ln'' 80] [] ''12 Oak Lane''
          [(GoldenSource, 0)] [(GoldenSource, 0)] []) =
   Inr \<lparr>cr_match_found = PBool True, cr_best_match = Candidate GoldenSource 0,
        cr_confidence = PFloat 80,
        cr_reasoning = PStr ''Using fuzzy match result (Claude review failed: Request timed out.)'',
        cr_concerns = PNone, cr_fuzzy_score = PFloat 80, cr_match_analyses = []\<rparr>"
  by (simp add: review_Cons review_try_def example_env_simps value_defs scored_simps)

lemma ex1_match:
  "fst (match_address
     (example_env [scored ''12 Oak Ln'' 80] [] 1 (Inl (ExternalError ''Request timed out.'')) [])
     cfg ''12 Oak Lane'' None) =
   Inr \<lparr>r_input_address = ''12 Oak Lane'', r_match_found = True,
        r_best_match = Some (Candidate GoldenSource 0),
        r_golden_source_matches = [scored ''12 Oak Ln'' 80],
        r_internal_matches = [],
        r_has_golden_source = True, r_has_internal = False,
        r_similarity_score = Some (PFloat 80), r_confidence = Some (PFloat 80),
        r_reasoning = PStr ''Using fuzzy match result (Claude review failed: Request timed out.)'',
        r_claude_review = Some \<lparr>cr_match_found = PBool True, cr_best_match = Candidate GoldenSource 0,
          cr_confidence = PFloat 80,
          cr_reasoning = PStr ''Using fuzzy match result (Claude review failed: Request timed out.)'',
          cr_concerns = PNone, cr_fuzzy_score = PFloat 80, cr_match_analyses = []\<rparr>,
        r_business_rule_exception = Some (80 < FUZZY_MATCH_THRESHOLD cfg),
        r_confidence_threshold = Some (FUZZY_MATCH_THRESHOLD cfg),
        r_candidates_searched = 1,
        r_search_method = ''fuzzy_match_with_ai'',
        r_matched_address = Some (Candidate GoldenSource 0)\<rparr>"
proof -
  let ?e = "example_env [scored ''12 Oak Ln'' 80] [] 1 (Inl (ExternalError ''Request timed out.'')) []"
  let ?mr = "\<lparr>mr_golden_source_matches = [scored ''12 Oak Ln'' 80], mr_internal_matches = [],
              mr_total_matches = 1\<rparr>"
  let ?cr = "\<lparr>cr_match_found = PBool True, cr_best_match = Candidate GoldenSource 0,
        cr_confidence = PFloat 80,
        cr_reasoning = PStr ''Using fuzzy match result (Claude review failed: Request timed out.)'',
        cr_concerns = PNone, cr_fuzzy_score = PFloat 80, cr_match_analyses = []\<rparr>"
  have 1: "fuzzy_match_addresses ?e ''12 Oak Lane'' None = Inr ?mr"
    by (simp add: example_env_simps)
  have 2: "mr_total_matches ?mr \<noteq> 0" by simp
  have 3: "sort_matches (mr_golden_source_matches ?mr) (mr_internal_matches ?mr) = (GoldenSource, 0) # []"
    by (simp add: ex1_sort)
  have 4: "fst (review_fuzzy_matches_with_claude ?e (mr_golden_source_matches ?mr)
         (mr_internal_matches ?mr) ''12 Oak Lane'' (take 10 ((GoldenSource, 0) # []))
         (take 10 (refs_of GoldenSource (mr_golden_source_matches ?mr)))
         (take 10 (refs_of Internal (mr_internal_matches ?mr)))) = Inr ?cr"
    using ex1_review by (simp add: refs_of_def)
  have 5: "choose_best (mr_golden_source_matches ?mr) (mr_internal_matches ?mr) ((GoldenSource, 0) # []) ?cr
         = Inr (Candidate GoldenSource 0, PFloat 80, PStr ''Using fuzzy match result (Claude review failed: Request timed out.)'')"
    by (simp add: choose_best_def py_truthy_def)
  have 6: "py_format_f (PFloat 80) = Inr ()"
    by (simp add: py_format_f_def)
  show ?thesis
    using match_address_returns[OF 1 2 3 4 5 6, of cfg]
    by (simp add: attach_analyses_def enumerate_eq_zip py_num_def)
qed

text \<open>
  Claim C6 as stated fails: with \<open>CONFIDENCE_THRESHOLD = 90\<close> and
  \<open>FUZZY_MATCH_THRESHOLD = 70\<close>, a result of confidence 80 is below the confidence
  threshold and is not flagged.
\<close>

theorem confidence_threshold_is_not_consulted:
  "(case fst (match_address
       (example_env [scored ''12 Oak Ln'' 80] [] 1 (Inl (ExternalError ''Request timed out.'')) [])
       \<lparr>FUZZY_MATCH_THRESHOLD = 70, CONFIDENCE_THRESHOLD = 90\<rparr> ''12 Oak Lane'' None) of
      Inl ex \<Rightarrow> False
    | Inr r \<Rightarrow> r_match_found r
        \<and> r_confidence r = Some (PFloat 80)
        \<and> py_num (PFloat 80) < CONFIDENCE_THRESHOLD \<lparr>FUZZY_MATCH_THRESHOLD = 70, CONFIDENCE_THRESHOLD = 90\<rparr>
        \<and> r_business_rule_exception r = Some False)"
  by (simp add: ex1_match py_num_def)

theorem exception_flag_follows_fuzzy_threshold_witness:
  "fst (match_address
       (example_env [scored ''12 Oak Ln'' 80] [] 1 (Inl (ExternalError ''Request timed out.'')) [])
       \<lparr>FUZZY_MATCH_THRESHOLD = 70, CONFIDENCE_THRESHOLD = 90\<rparr> ''12 Oak Lane'' None)
   = map_sum id (\<lambda>r. r\<lparr>r_business_rule_exception := Some False, r_confidence_threshold := Some 70\<rparr>)
       (fst (match_address
          (example_env [scored ''12 Oak Ln'' 80] [] 1 (Inl (ExternalError ''Request timed out.'')) [])
          \<lparr>FUZZY_MATCH_THRESHOLD = 85, CONFIDENCE_THRESHOLD = 90\<rparr> ''12 Oak Lane'' None))
   \<and> map_sum id r_business_rule_exception (fst (match_address
          (example_env [scored ''12 Oak Ln'' 80] [] 1 (Inl (ExternalError ''Request timed out.'')) [])
          \<lparr>FUZZY_MATCH_THRESHOLD = 85, CONFIDENCE_THRESHOLD = 90\<rparr> ''12 Oak Lane'' None))
      = Inr (Some True)"
proof -
  let ?e = "example_env [scored ''12 Oak Ln'' 80] [] 1 (Inl (ExternalError ''Request timed out.'')) []"
  let ?cfg = "\<lparr>FUZZY_MATCH_THRESHOLD = 85, CONFIDENCE_THRESHOLD = 90\<rparr>"
  obtain r sent where m: "match_address ?e ?cfg ''12 Oak Lane'' None = (Inr r, sent)"
    using ex1_match[of ?cfg] by (cases "match_address ?e ?cfg ''12 Oak Lane'' None") auto
  then have mf: "r_match_found r" and c: "r_confidence r = Some (PFloat 80)"
    using ex1_match[of ?cfg] by auto
  from exception_flag_follows_fuzzy_threshold[OF m mf] c
  have flag: "r_business_rule_exception r = Some (py_num (PFloat 80) < FUZZY_MATCH_THRESHOLD ?cfg)"
    and other: "match_address ?e \<lparr>FUZZY_MATCH_THRESHOLD = 70, CONFIDENCE_THRESHOLD = 90\<rparr> ''12 Oak Lane'' None =
      (Inr (r\<lparr>r_business_rule_exception :=
                 Some (py_num (PFloat 80) < FUZZY_MATCH_THRESHOLD \<lparr>FUZZY_MATCH_THRESHOLD = 70, CONFIDENCE_THRESHOLD = 90\<rparr>),
               r_confidence_threshold := Some (FUZZY_MATCH_THRESHOLD \<lparr>FUZZY_MATCH_THRESHOLD = 70, CONFIDENCE_THRESHOLD = 90\<rparr>)\<rparr>), sent)"
    by auto
  show ?thesis
    using flag other m by (simp add: py_num_def)
qed

theorem best_match_is_returned_candidate_witness:
  "(case fst (match_address
       (example_env [scored ''12 Oak Ln'' 80] [] 1 (Inl (ExternalError ''Request timed out.'')) [])
       example_config ''12 Oak Lane'' None) of
      Inl ex \<Rightarrow> False
    | Inr r \<Rightarrow> r_match_found r
        \<and> r_best_match r = Some (Candidate GoldenSource 0)
        \<and> r_golden_source_matches r = [scored ''12 Oak Ln'' 80])"
proof -
  let ?e = "example_env [scored ''12 Oak Ln'' 80] [] 1 (Inl (ExternalError ''Request timed out.'')) []"
  obtain r sent where m: "match_address ?e example_config ''12 Oak Lane'' None = (Inr r, sent)"
    using ex1_match[of example_config]
    by (cases "match_address ?e example_config ''12 Oak Lane'' None") auto
  then have mf: "r_match_found r" and gs: "r_golden_source_matches r = [scored ''12 Oak Ln'' 80]"
    and ints: "r_internal_matches r = []"
    using ex1_match[of example_config] by auto
  from best_match_is_returned_candidate[OF m mf] obtain s i where
    b: "r_best_match r = Some (Candidate s i)"
    and i: "i < length (case s of GoldenSource \<Rightarrow> r_golden_source_matches r
                                 | Internal \<Rightarrow> r_internal_matches r)"
    by blast
  have "s = GoldenSource \<and> i = 0"
    using i gs ints by (cases s) simp_all
  then show ?thesis using m mf b gs by simp
qed

section \<open>The command line on a returned result\<close>

lemma map_of_opt_entry_other:
  "k \<noteq> k' \<Longrightarrow> map_of (opt_entry k f x @ rest) k' = map_of rest k'"
  "k \<noteq> k' \<Longrightarrow> map_of (opt_entry k f x) k' = None"
  by (cases x; simp add: opt_entry_def)+

lemma map_add_opt_entry_other:
  "k \<noteq> k' \<Longrightarrow> (m ++ map_of (opt_entry k f x)) k' = m k'"
  by (cases x; simp add: opt_entry_def map_add_def)

lemma result_dict_keys:
  "map_of (result_dict r) ''claude_response'' = None"
  "map_of (result_dict r) ''input_address'' = Some (PStr (r_input_address r))"
  "map_of (result_dict r) ''candidates_searched'' = Some (PInt (r_candidates_searched r))"
  "map_of (result_dict r) ''match_found'' = Some (PBool (r_match_found r))"
  by (simp_all add: result_dict_def Let_def map_of_opt_entry_other map_add_opt_entry_other)

lemma report_result_dict:
  "report repr (result_dict r) =
     ([newline @ rule (CHR ''=''), ''MATCH RESULT'', rule (CHR ''=''),
       newline @ ''Input Address: '' @ r_input_address r,
       ''Candidates Searched: '' @ py_str repr (PInt (r_candidates_searched r)),
       newline @ ''Claude's Analysis:'', rule (CHR ''-'')],
      Some (KeyError ''claude_response''))"
  by (simp add: report_def py_getitem_def result_dict_keys Let_def py_str_def)

lemma main_alt_exits_nonzero:
  assumes "new_agent c = (\<lambda>table_name. Inr (agent_match_address e cfg))"
  shows "snd (main_alt c argv) = 1"
proof (cases "length argv < 2")
  case True
  then show ?thesis by (simp add: main_alt_def)
next
  case False
  obtain input_address table_arg where p: "parse_args argv = (input_address, table_arg)"
    by (cases "parse_args argv") auto
  show ?thesis
  proof (cases "fst (match_address e cfg input_address None)")
    case (Inl ex)
    with False p assms show ?thesis
      by (simp add: main_alt_def agent_match_address_def Let_def)
  next
    case (Inr r)
    with False p assms show ?thesis
      by (simp add: main_alt_def agent_match_address_def Let_def report_result_dict)
  qed
qed

text \<open>
  Claim C3 says that \<open>main\<close> prints the summary and does not exit non-zero when
  \<open>match_address\<close> returns. The dictionary that \<open>match_address\<close> returns has no
  key \<open>claude_response\<close>, so the summary stops at the \<open>KeyError\<close> and the process
  exits with status 1; here for a match found with one candidate.
\<close>

theorem main_alt_exits_with_status_1_after_a_match:
  "(case agent_match_address
          (example_env [scored ''12 Oak Ln'' 80] [] 1 (Inl (ExternalError ''Request timed out.'')) [])
          example_config ''12 Oak Lane'' of
      Inl ex \<Rightarrow> False
    | Inr result \<Rightarrow> map_of result ''match_found'' = Some (PBool True)
        \<and> map_of result ''claude_response'' = None)
   \<and> main_alt
       \<lparr>getenv_table_alt = None,
        new_agent = (\<lambda>table_name. Inr (agent_match_address
          (example_env [scored ''12 Oak Ln'' 80] [] 1 (Inl (ExternalError ''Request timed out.'')) [])
          example_config)),
        repr_value = example_repr\<rparr>
       [''main_alt.py'', ''12 Oak Lane''] =
     ([rule (CHR ''=''), ''OneTrueAddress Agent - Address Matching (Alternative Table)'',
       rule (CHR ''=''), ''Using Table: addresses_backup'', '''',
       newline @ rule (CHR ''=''), ''MATCH RESULT'', rule (CHR ''=''),
       newline @ ''Input Address: 12 Oak Lane'',
       ''Candidates Searched: 1'',
       newline @ ''Claude's Analysis:'', rule (CHR ''-''),
       newline @ ''Error: 'claude_response'' @ [CHR 0x27]],
      1)"
proof -
  let ?e = "example_env [scored ''12 Oak Ln'' 80] [] 1 (Inl (ExternalError ''Request timed out.'')) []"
  obtain r where r: "fst (match_address ?e example_config ''12 Oak Lane'' None) = Inr r"
    and mf: "r_match_found r" and ia: "r_input_address r = ''12 Oak Lane''"
    and cs: "r_candidates_searched r = 1"
    using ex1_match[of example_config] by simp
  have mfk: "map_of (result_dict r) ''match_found'' = Some (PBool True)"
    using mf by (simp add: result_dict_keys)
  show ?thesis
    using r mfk ia cs
    by (simp add: agent_match_address_def main_alt_def parse_args_def choose_table_def
        report_result_dict result_dict_keys Let_def py_str_def example_repr_def str_int_def
        str_nat.simps)
qed

end
